theory Spec2Isabelle
  imports Complex_Main "HOL-Library.Word"
begin

unbundle bit_operations_syntax

section \<open>The VTF viewer (src/gui/viewer.cpp) as state-passing functions\<close>

text \<open>
  The viewer is a single-threaded Qt program: a main window that owns the current VTF
  file, and four widgets that are told about every change of file through the signal
  \<open>vtfFileChanged\<close>. Each C++ member function becomes a function from the application
  state to \<open>error + state\<close>: \<open>Inl\<close> is a run that leaves defined behaviour (a null or
  dangling pointer is dereferenced), \<open>Inr\<close> is the state after the call. A signal is the
  call of its connected slots, in the order of the \<open>connect\<close> calls, and is also appended
  to a trace so that theorems can speak about what was emitted.

  C++ spells data members with a trailing underscore, which an Isabelle name cannot
  end in, and several classes have a member \<open>file_\<close>. Members are therefore named
  \<open>win_file\<close>, \<open>win_path\<close>, \<open>win_dirty\<close> (ViewerMainWindow); \<open>view_file\<close>, \<open>view_frame\<close>,
  \<open>view_face\<close>, \<open>view_mip\<close>, \<open>view_zoom\<close>, \<open>view_pos\<close>, \<open>view_image\<close>, \<open>imgBuf\<close>,
  \<open>currentFrame\<close>, \<open>currentFace\<close>, \<open>currentMip\<close> (ImageViewWidget); \<open>ctl_file\<close>,
  \<open>ctl_frame\<close>, \<open>ctl_mip\<close>, \<open>ctl_face\<close>, \<open>ctl_startFrame\<close>, \<open>flagChecks\<close>, \<open>settingFile\<close>
  (ImageSettingsWidget); \<open>info_fields\<close> (InfoWidget); \<open>res_table\<close> (ResourceWidget).
\<close>

subsection \<open>Undefined behaviour as a value\<close>

datatype error = NullDereference | DanglingDereference | InvalidIterator

definition and_then :: "error + 'a \<Rightarrow> ('a \<Rightarrow> error + 'b) \<Rightarrow> error + 'b" where
  "and_then m k = (case m of Inl e \<Rightarrow> Inl e | Inr x \<Rightarrow> k x)"

subsection \<open>The codec (VTFLib), seen through the calls the viewer makes\<close>

type_synonym vlUInt = "32 word"
type_synonym vlByte = "8 word"

text \<open>Only two enumerators of \<open>VTFImageFormat\<close> are named in the viewer.\<close>

datatype VTFImageFormat = IMAGE_FORMAT_RGBA8888 | IMAGE_FORMAT_RGB888 | IMAGE_FORMAT_OTHER nat

text \<open>What the accessors of a loaded \<open>CVTFFile\<close> return. A resource is its type and the
  size of its data.\<close>

record CVTFFile =
  Width :: vlUInt
  Height :: vlUInt
  Depth :: vlUInt
  FrameCount :: vlUInt
  FaceCount :: vlUInt
  MipmapCount :: vlUInt
  Format :: VTFImageFormat
  MajorVersion :: vlUInt
  MinorVersion :: vlUInt
  Size :: vlUInt
  Reflectivity :: "real \<times> real \<times> real"
  StartFrame :: vlUInt
  Flags :: vlUInt
  Resources :: "(vlUInt \<times> vlUInt) list"

text \<open>The primitives whose results the viewer only branches on or passes along are
  parameters: every theorem below holds for every codec.\<close>

record codec =
  Load :: "vlByte list \<Rightarrow> CVTFFile option"
  Save :: "CVTFFile \<Rightarrow> string \<Rightarrow> bool"
  vlGetLastError :: string
  uiAlphaBitsPerPixel :: "VTFImageFormat \<Rightarrow> vlUInt"
  ComputeMipmapDimensions :: "vlUInt \<Rightarrow> vlUInt \<Rightarrow> vlUInt \<Rightarrow> vlUInt \<Rightarrow> vlUInt \<times> vlUInt \<times> vlUInt"
  ComputeMipmapSize :: "vlUInt \<Rightarrow> vlUInt \<Rightarrow> vlUInt \<Rightarrow> vlUInt \<Rightarrow> VTFImageFormat \<Rightarrow> vlUInt"
  GetData :: "CVTFFile \<Rightarrow> vlUInt \<Rightarrow> vlUInt \<Rightarrow> vlUInt \<Rightarrow> vlUInt \<Rightarrow> vlByte list option"
  Convert :: "vlByte list option \<Rightarrow> vlUInt \<Rightarrow> vlUInt \<Rightarrow> VTFImageFormat \<Rightarrow> VTFImageFormat \<Rightarrow> bool"
  ImageFormatToString :: "VTFImageFormat \<Rightarrow> string"
  GetResourceName :: "vlUInt \<Rightarrow> string"

text \<open>Modelled from the spec: the two mutators of the VTF handle, whose code (VTFLib) is
  not among the sources. Section 6 lists them as \<open>setStartFrame(n)\<close> and
  \<open>setFlag(bit, on)\<close>; section 4.5 says a start-frame edit writes through to the VTF and
  a flag toggle writes the corresponding bit of the flag bitset.\<close>

definition SetStartFrame :: "vlUInt \<Rightarrow> CVTFFile \<Rightarrow> CVTFFile" where
  "SetStartFrame n f = f\<lparr>StartFrame := n\<rparr>"

definition SetFlag :: "vlUInt \<Rightarrow> bool \<Rightarrow> CVTFFile \<Rightarrow> CVTFFile" where
  "SetFlag fl on f = f\<lparr>Flags := (if on then Flags f OR fl else Flags f AND NOT fl)\<rparr>"

text \<open>Objects made by \<open>new\<close> live in a list indexed by address; \<open>delete\<close> leaves a hole,
  so an address is never handed out twice. A pointer is \<open>None\<close> (\<open>nullptr\<close>) or an
  address.\<close>

definition heap_at :: "'a option list \<Rightarrow> nat \<Rightarrow> 'a option" where
  "heap_at h a = (if a < length h then h ! a else None)"

definition deref :: "CVTFFile option list \<Rightarrow> nat option \<Rightarrow> error + CVTFFile" where
  "deref h p =
     (case p of
        None \<Rightarrow> Inl NullDereference
      | Some a \<Rightarrow> (case heap_at h a of None \<Rightarrow> Inl DanglingDereference | Some f \<Rightarrow> Inr f))"

subsection \<open>The Qt widgets the viewer drives\<close>

text \<open>A \<open>QSpinBox\<close> starts at value 0 in the range 0 to 99. \<open>setValue\<close> and \<open>setRange\<close> keep
  the value inside the range, and \<open>textChanged\<close> is emitted exactly when the value
  changed; \<open>setRange\<close> with a maximum below the minimum uses the minimum for both.\<close>

record QSpinBox =
  spin_value :: int
  spin_minimum :: int
  spin_maximum :: int

definition QSpinBox_new :: QSpinBox where
  "QSpinBox_new = \<lparr>spin_value = 0, spin_minimum = 0, spin_maximum = 99\<rparr>"

definition bound :: "QSpinBox \<Rightarrow> int \<Rightarrow> int" where
  "bound b v =
     (let v1 = (if v < spin_minimum b then spin_minimum b else v)
      in if spin_maximum b < v1 then spin_maximum b else v1)"

definition setValue :: "int \<Rightarrow> QSpinBox \<Rightarrow> QSpinBox" where
  "setValue v b = b\<lparr>spin_value := bound b v\<rparr>"

definition setRange :: "int \<Rightarrow> int \<Rightarrow> QSpinBox \<Rightarrow> QSpinBox" where
  "setRange lo hi b =
     (let b1 = b\<lparr>spin_minimum := lo, spin_maximum := (if lo < hi then hi else lo)\<rparr>
      in b1\<lparr>spin_value := bound b1 (spin_value b1)\<rparr>)"

datatype QImage_Format = Format_Invalid | Format_RGBA8888 | Format_RGB888

text \<open>A \<open>QImage\<close> built over caller-owned memory keeps the address and does not own it.\<close>

record QImage =
  img_data :: "nat option"
  img_width :: int
  img_height :: int
  img_format :: QImage_Format

definition QImage_null :: QImage where
  "QImage_null = \<lparr>img_data = None, img_width = 0, img_height = 0, img_format = Format_Invalid\<rparr>"

definition endsWith :: "string \<Rightarrow> string \<Rightarrow> bool" where
  "endsWith t suffix = (length suffix \<le> length t \<and> drop (length t - length suffix) t = suffix)"

subsection \<open>The classes of viewer.cpp\<close>

record ViewerMainWindow =
  win_file :: "nat option"
  win_path :: string
  win_dirty :: bool
  windowTitle :: string

text \<open>The text of a line edit, before number formatting.\<close>

datatype field_text =
    NoText
  | NumberText vlUInt
  | VersionText vlUInt vlUInt
  | SizeText vlUInt
  | NameText string
  | ReflectivityText real real real

record InfoWidget =
  info_fields :: "string \<rightharpoonup> field_text"

record ResourceWidget =
  res_table :: "(string \<times> vlUInt \<times> vlUInt) list"

record ImageViewWidget =
  view_image :: QImage
  imgBuf :: "nat option"
  view_file :: "nat option"
  view_zoom :: real
  view_pos :: "int \<times> int"
  view_frame :: int
  view_face :: int
  view_mip :: int
  currentFrame :: int
  currentFace :: int
  currentMip :: int
  view_size :: "int \<times> int"

record ImageSettingsWidget =
  ctl_file :: "nat option"
  settingFile :: bool
  ctl_frame :: QSpinBox
  ctl_mip :: QSpinBox
  ctl_face :: QSpinBox
  ctl_startFrame :: QSpinBox
  flagChecks :: "vlUInt \<rightharpoonup> bool"

record TextureFlag =
  flag :: vlUInt
  name :: string

text \<open>What the program does that can be seen from outside a single object: the signals
  it emits, the lines it writes to the error stream, the dialogs it opens, the calls of
  the codec that write or decode, and what it draws.\<close>

datatype event =
    vtfFileChanged "nat option"
  | fileModified
  | cerr string
  | getSaveFileName
  | warning string string
  | codec_Save string bool
  | codec_Convert VTFImageFormat VTFImageFormat bool
  | drawImage "int \<times> int" QImage

text \<open>The whole program: the objects made by \<open>new CVTFFile\<close>, the pixel buffers made by
  \<open>malloc\<close> (each with its size, until it is freed), the main window and its four
  widgets.\<close>

record app =
  heap :: "CVTFFile option list"
  pixels :: "vlUInt option list"
  mainWindow :: ViewerMainWindow
  infoWidget :: InfoWidget
  resList :: ResourceWidget
  imageView :: ImageViewWidget
  viewSettings :: ImageSettingsWidget
  trace :: "event list"

definition emit :: "event \<Rightarrow> app \<Rightarrow> app" where
  "emit e s = s\<lparr>trace := trace s @ [e]\<rparr>"

subsection \<open>ViewerMainWindow: the dirty bit and the title\<close>

definition reset_state :: "ViewerMainWindow \<Rightarrow> ViewerMainWindow" where
  "reset_state w = w\<lparr>win_dirty := False\<rparr>"

definition mark_modified :: "ViewerMainWindow \<Rightarrow> ViewerMainWindow" where
  "mark_modified w0 =
     (let w = w0\<lparr>win_dirty := True\<rparr>;
          title = windowTitle w
      in if endsWith title ''*'' then w
         else w\<lparr>windowTitle := title @ ''*''\<rparr>)"

text \<open>\<open>fileModified\<close> of the settings widget is connected to \<open>mark_modified\<close> of the main
  window.\<close>

definition emit_fileModified :: "app \<Rightarrow> app" where
  "emit_fileModified s = mainWindow_update mark_modified (emit fileModified s)"

subsection \<open>InfoWidget\<close>

text \<open>\<open>find(name)\<close> looks the line edit up in \<open>fields_\<close>; a name that is not there
  gives the end iterator.\<close>

definition setText :: "string \<Rightarrow> field_text \<Rightarrow> app \<Rightarrow> error + app" where
  "setText field t s =
     (case info_fields (infoWidget s) field of
        None \<Rightarrow> Inl InvalidIterator
      | Some _ \<Rightarrow> Inr (infoWidget_update (\<lambda>w. w\<lparr>info_fields := (info_fields w)(field \<mapsto> t)\<rparr>) s))"

definition update_info :: "codec \<Rightarrow> nat option \<Rightarrow> app \<Rightarrow> error + app" where
  "update_info cd file s0 =
     and_then (deref (heap s0) file) (\<lambda>f.
     and_then (setText ''Width'' (NumberText (Width f)) s0) (\<lambda>s.
     and_then (setText ''Height'' (NumberText (Height f)) s) (\<lambda>s.
     and_then (setText ''Depth'' (NumberText (Depth f)) s) (\<lambda>s.
     and_then (setText ''Frames'' (NumberText (FrameCount f)) s) (\<lambda>s.
     and_then (setText ''Faces'' (NumberText (FaceCount f)) s) (\<lambda>s.
     and_then (setText ''Mips'' (NumberText (MipmapCount f)) s) (\<lambda>s.
     and_then (setText ''Image format'' (NameText (ImageFormatToString cd (Format f))) s) (\<lambda>s.
     and_then (setText ''Version'' (VersionText (MajorVersion f) (MinorVersion f)) s) (\<lambda>s.
     and_then (setText ''Size'' (SizeText (Size f)) s) (\<lambda>s.
     (case Reflectivity f of (x, y, z) \<Rightarrow>
        setText ''Reflectivity'' (ReflectivityText x y z) s)))))))))))"

definition INFO_FIELDS :: "string list" where
  "INFO_FIELDS = [''Width'', ''Height'', ''Depth'', ''Frames'', ''Faces'', ''Mips'',
     ''Image format'', ''Reflectivity'']"

definition FILE_FIELDS :: "string list" where
  "FILE_FIELDS = [''Size'', ''Version'']"

text \<open>\<open>setup_ui\<close> makes one empty, read-only line edit per field name.\<close>

definition InfoWidget_setup_ui :: InfoWidget where
  "InfoWidget_setup_ui =
     \<lparr>info_fields = (\<lambda>n. if n \<in> set (FILE_FIELDS @ INFO_FIELDS) then Some NoText else None)\<rparr>"

subsection \<open>ResourceWidget\<close>

text \<open>\<open>GetResourceData(type, size)\<close> reports the size of the first resource of that
  type.\<close>

definition GetResourceData_size :: "CVTFFile \<Rightarrow> vlUInt \<Rightarrow> vlUInt" where
  "GetResourceData_size f ty = (case map_of (Resources f) ty of None \<Rightarrow> 0 | Some n \<Rightarrow> n)"

definition ResourceWidget_set_vtf :: "codec \<Rightarrow> nat option \<Rightarrow> app \<Rightarrow> error + app" where
  "ResourceWidget_set_vtf cd file s0 =
     (let s = s0\<lparr>resList := \<lparr>res_table = []\<rparr>\<rparr> in
      and_then (deref (heap s) file) (\<lambda>f.
        Inr (s\<lparr>resList := \<lparr>res_table =
               map (\<lambda>r. (GetResourceName cd (fst r), fst r, GetResourceData_size f (fst r)))
                 (Resources f)\<rparr>\<rparr>)))"

subsection \<open>ImageViewWidget\<close>

text \<open>Modelled from the spec: the three setters are inline in viewer.hpp, which is not
  among the sources. Section 4.4: \<open>setFrame(n)\<close>, \<open>setFace(n)\<close>, \<open>setMip(n)\<close> record the
  pending selection; the next paint observes the change.\<close>

definition set_frame :: "int \<Rightarrow> ImageViewWidget \<Rightarrow> ImageViewWidget" where
  "set_frame f v = v\<lparr>view_frame := f\<rparr>"

definition set_face :: "int \<Rightarrow> ImageViewWidget \<Rightarrow> ImageViewWidget" where
  "set_face f v = v\<lparr>view_face := f\<rparr>"

definition set_mip :: "int \<Rightarrow> ImageViewWidget \<Rightarrow> ImageViewWidget" where
  "set_mip f v = v\<lparr>view_mip := f\<rparr>"

text \<open>\<open>QWidget::resize\<close> keeps the size at or above the minimum size, which the
  constructor sets to 256 by 256.\<close>

definition resize :: "int \<times> int \<Rightarrow> ImageViewWidget \<Rightarrow> ImageViewWidget" where
  "resize sz v = v\<lparr>view_size := (max 256 (fst sz), max 256 (snd sz))\<rparr>"

definition ImageViewWidget_set_vtf :: "nat option \<Rightarrow> app \<Rightarrow> error + app" where
  "ImageViewWidget_set_vtf file s0 =
     (let s = imageView_update (\<lambda>v. v\<lparr>view_file := file,
                 currentFrame := - 1, currentFace := - 1, currentMip := - 1,
                 view_zoom := 1, view_pos := (0, 0)\<rparr>) s0 in
      and_then (deref (heap s) file) (\<lambda>f.
        let sz = (sint (Width f), sint (Height f)); cur = view_size (imageView s) in
        Inr (if fst cur < fst sz \<or> snd cur < snd sz then imageView_update (resize sz) s else s)))"

text \<open>\<open>malloc\<close> hands out the next address; \<open>free\<close> leaves a hole there. Drawing an
  image reads the memory it was built over. The size of a widget is not negative, so
  halving it in C++ is \<open>div 2\<close>.\<close>

definition malloc :: "vlUInt \<Rightarrow> app \<Rightarrow> nat \<times> app" where
  "malloc n s = (length (pixels s), s\<lparr>pixels := pixels s @ [Some n]\<rparr>)"

definition free :: "nat \<Rightarrow> app \<Rightarrow> app" where
  "free a s = s\<lparr>pixels := (pixels s)[a := None]\<rparr>"

definition live :: "app \<Rightarrow> nat \<Rightarrow> bool" where
  "live s a = (heap_at (pixels s) a \<noteq> None)"

definition painter_drawImage :: "int \<times> int \<Rightarrow> QImage \<Rightarrow> app \<Rightarrow> error + app" where
  "painter_drawImage p img s =
     (case img_data img of
        None \<Rightarrow> Inr (emit (drawImage p img) s)
      | Some a \<Rightarrow> if live s a then Inr (emit (drawImage p img) s) else Inl DanglingDereference)"

definition paintEvent :: "codec \<Rightarrow> app \<Rightarrow> error + app" where
  "paintEvent cd s0 =
     and_then (deref (heap s0) (view_file (imageView s0))) (\<lambda>f.
       let v = imageView s0;
           dims = ComputeMipmapDimensions cd (Width f) (Height f) (Depth f) (word_of_int (view_mip v));
           imageWidth = fst dims;
           imageHeight = fst (snd dims);
           center = (fst (view_size v) div 2 - sint (imageWidth div 2),
                     snd (view_size v) div 2 - sint (imageHeight div 2));
           draw = (\<lambda>s. painter_drawImage
                     (fst center + fst (view_pos (imageView s)), snd center + snd (view_pos (imageView s)))
                     (view_image (imageView s)) s)
       in
       if view_frame v \<noteq> currentFrame v \<or> view_mip v \<noteq> currentMip v \<or> view_face v \<noteq> currentFace v
       then
         let hasAlpha = (0 < uiAlphaBitsPerPixel cd (Format f));
             format = (if hasAlpha then IMAGE_FORMAT_RGBA8888 else IMAGE_FORMAT_RGB888);
             bytes = ComputeMipmapSize cd (Width f) (Height f) 1 (word_of_int (view_mip v)) format;
             s1 = (case imgBuf v of None \<Rightarrow> s0 | Some old \<Rightarrow> free old s0);
             buf = fst (malloc bytes s1);
             s2 = imageView_update (\<lambda>v. v\<lparr>imgBuf := Some buf\<rparr>) (snd (malloc bytes s1));
             ok = Convert cd (GetData cd f (word_of_int (view_frame v)) (word_of_int (view_face v)) 0
                                (word_of_int (view_mip v)))
                    imageWidth imageHeight (Format f) format;
             s3 = emit (codec_Convert (Format f) format ok) s2
         in
         if \<not> ok then Inr (emit (cerr ''Could not convert image for display.\<newline>'') s3)
         else
           draw (imageView_update (\<lambda>v. v\<lparr>
                   view_image := \<lparr>img_data = Some buf, img_width = sint imageWidth,
                                  img_height = sint imageHeight,
                                  img_format = (if hasAlpha then Format_RGBA8888 else Format_RGB888)\<rparr>,
                   currentFace := view_face v, currentFrame := view_frame v,
                   currentMip := view_mip v\<rparr>) s3)
       else draw s0)"

definition ImageViewWidget_new :: ImageViewWidget where
  "ImageViewWidget_new =
     \<lparr>view_image = QImage_null, imgBuf = None, view_file = None, view_zoom = 1, view_pos = (0, 0),
      view_frame = 0, view_face = 0, view_mip = 0,
      currentFrame = 0, currentFace = 0, currentMip = 0, view_size = (256, 256)\<rparr>"

subsection \<open>The texture flag list\<close>

text \<open>The enumerators of \<open>VTFImageFlag\<close> come from VTFLib's headers, which are not among
  the sources: the table takes their values as the parameter \<open>V\<close>, and keeps the order
  and the labels of \<open>TEXTURE_FLAGS\<close>.\<close>

datatype VTFImageFlag =
    TEXTUREFLAGS_POINTSAMPLE
  | TEXTUREFLAGS_TRILINEAR
  | TEXTUREFLAGS_CLAMPS
  | TEXTUREFLAGS_CLAMPT
  | TEXTUREFLAGS_CLAMPU
  | TEXTUREFLAGS_ANISOTROPIC
  | TEXTUREFLAGS_HINT_DXT5
  | TEXTUREFLAGS_SRGB
  | TEXTUREFLAGS_DEPRECATED_NOCOMPRESS
  | TEXTUREFLAGS_NORMAL
  | TEXTUREFLAGS_NOMIP
  | TEXTUREFLAGS_NOLOD
  | TEXTUREFLAGS_MINMIP
  | TEXTUREFLAGS_PROCEDURAL
  | TEXTUREFLAGS_ONEBITALPHA
  | TEXTUREFLAGS_EIGHTBITALPHA
  | TEXTUREFLAGS_ENVMAP
  | TEXTUREFLAGS_RENDERTARGET
  | TEXTUREFLAGS_DEPTHRENDERTARGET
  | TEXTUREFLAGS_NODEBUGOVERRIDE
  | TEXTUREFLAGS_SINGLECOPY
  | TEXTUREFLAGS_DEPRECATED_ONEOVERMIPLEVELINALPHA
  | TEXTUREFLAGS_DEPRECATED_PREMULTCOLORBYONEOVERMIPLEVEL
  | TEXTUREFLAGS_DEPRECATED_NORMALTODUDV
  | TEXTUREFLAGS_DEPRECATED_ALPHATESTMIPGENERATION
  | TEXTUREFLAGS_NODEPTHBUFFER
  | TEXTUREFLAGS_DEPRECATED_NICEFILTERED
  | TEXTUREFLAGS_VERTEXTEXTURE
  | TEXTUREFLAGS_SSBUMP
  | TEXTUREFLAGS_DEPRECATED_UNFILTERABLE_OK
  | TEXTUREFLAGS_BORDER
  | TEXTUREFLAGS_DEPRECATED_SPECVAR_RED
  | TEXTUREFLAGS_DEPRECATED_SPECVAR_ALPHA

definition TEXTURE_FLAGS :: "(VTFImageFlag \<Rightarrow> vlUInt) \<Rightarrow> TextureFlag list" where
  "TEXTURE_FLAGS V =
     [\<lparr>flag = V TEXTUREFLAGS_POINTSAMPLE, name = ''Point Sample''\<rparr>,
      \<lparr>flag = V TEXTUREFLAGS_TRILINEAR, name = ''Trilinear''\<rparr>,
      \<lparr>flag = V TEXTUREFLAGS_CLAMPS, name = ''Clamp S''\<rparr>,
      \<lparr>flag = V TEXTUREFLAGS_CLAMPT, name = ''Clamp T''\<rparr>,
      \<lparr>flag = V TEXTUREFLAGS_CLAMPU, name = ''Clamp U''\<rparr>,
      \<lparr>flag = V TEXTUREFLAGS_ANISOTROPIC, name = ''Anisotropic''\<rparr>,
      \<lparr>flag = V TEXTUREFLAGS_HINT_DXT5, name = ''Hint DXT5''\<rparr>,
      \<lparr>flag = V TEXTUREFLAGS_SRGB, name = ''sRGB''\<rparr>,
      \<lparr>flag = V TEXTUREFLAGS_DEPRECATED_NOCOMPRESS, name = ''Nocompress (Deprecated)''\<rparr>,
      \<lparr>flag = V TEXTUREFLAGS_NORMAL, name = ''Normal''\<rparr>,
      \<lparr>flag = V TEXTUREFLAGS_NOMIP, name = ''No MIP''\<rparr>,
      \<lparr>flag = V TEXTUREFLAGS_NOLOD, name = ''No LOD''\<rparr>,
      \<lparr>flag = V TEXTUREFLAGS_MINMIP, name = ''Min Mip''\<rparr>,
      \<lparr>flag = V TEXTUREFLAGS_PROCEDURAL, name = ''Procedural''\<rparr>,
      \<lparr>flag = V TEXTUREFLAGS_ONEBITALPHA, name = ''One-bit Alpha''\<rparr>,
      \<lparr>flag = V TEXTUREFLAGS_EIGHTBITALPHA, name = ''Eight-bit Alpha''\<rparr>,
      \<lparr>flag = V TEXTUREFLAGS_ENVMAP, name = ''Envmap''\<rparr>,
      \<lparr>flag = V TEXTUREFLAGS_RENDERTARGET, name = ''Render Target''\<rparr>,
      \<lparr>flag = V TEXTUREFLAGS_DEPTHRENDERTARGET, name = ''Depth Render Target''\<rparr>,
      \<lparr>flag = V TEXTUREFLAGS_NODEBUGOVERRIDE, name = ''No Debug Override''\<rparr>,
      \<lparr>flag = V TEXTUREFLAGS_SINGLECOPY, name = ''Single Copy''\<rparr>,
      \<lparr>flag = V TEXTUREFLAGS_DEPRECATED_ONEOVERMIPLEVELINALPHA, name = ''One Over Mip Level Linear Alpha (Deprecated)''\<rparr>,
      \<lparr>flag = V TEXTUREFLAGS_DEPRECATED_PREMULTCOLORBYONEOVERMIPLEVEL, name = ''Pre-multiply Colors by One Over Mip Level (Deprecated)''\<rparr>,
      \<lparr>flag = V TEXTUREFLAGS_DEPRECATED_NORMALTODUDV, name = ''Normal To DuDv''\<rparr>,
      \<lparr>flag = V TEXTUREFLAGS_DEPRECATED_ALPHATESTMIPGENERATION, name = ''Alpha Test Mip Generation (Deprecated)''\<rparr>,
      \<lparr>flag = V TEXTUREFLAGS_NODEPTHBUFFER, name = ''No Depth Buffer''\<rparr>,
      \<lparr>flag = V TEXTUREFLAGS_DEPRECATED_NICEFILTERED, name = ''Nice Filtered (Deprecated)''\<rparr>,
      \<lparr>flag = V TEXTUREFLAGS_VERTEXTEXTURE, name = ''Vertex Texture''\<rparr>,
      \<lparr>flag = V TEXTUREFLAGS_SSBUMP, name = ''SSBump''\<rparr>,
      \<lparr>flag = V TEXTUREFLAGS_DEPRECATED_UNFILTERABLE_OK, name = ''Unfilterable OK (Deprecated)''\<rparr>,
      \<lparr>flag = V TEXTUREFLAGS_BORDER, name = ''Border''\<rparr>,
      \<lparr>flag = V TEXTUREFLAGS_DEPRECATED_SPECVAR_RED, name = ''Specvar Red (Deprecated)''\<rparr>,
      \<lparr>flag = V TEXTUREFLAGS_DEPRECATED_SPECVAR_ALPHA, name = ''Specvar Alpha (Deprecated)''\<rparr>]"

subsection \<open>ImageSettingsWidget\<close>

datatype spin = FrameBox | MipBox | FaceBox | StartFrameBox

fun get_box :: "spin \<Rightarrow> ImageSettingsWidget \<Rightarrow> QSpinBox" where
  "get_box FrameBox w = ctl_frame w"
| "get_box MipBox w = ctl_mip w"
| "get_box FaceBox w = ctl_face w"
| "get_box StartFrameBox w = ctl_startFrame w"

fun put_box :: "spin \<Rightarrow> QSpinBox \<Rightarrow> ImageSettingsWidget \<Rightarrow> ImageSettingsWidget" where
  "put_box FrameBox b w = w\<lparr>ctl_frame := b\<rparr>"
| "put_box MipBox b w = w\<lparr>ctl_mip := b\<rparr>"
| "put_box FaceBox b w = w\<lparr>ctl_face := b\<rparr>"
| "put_box StartFrameBox b w = w\<lparr>ctl_startFrame := b\<rparr>"

text \<open>The four lambdas that \<open>setup_ui\<close> connects to \<open>QSpinBox::textChanged\<close>.\<close>

fun textChanged :: "spin \<Rightarrow> app \<Rightarrow> error + app" where
  "textChanged FrameBox s =
     Inr (imageView_update (set_frame (spin_value (ctl_frame (viewSettings s)))) s)"
| "textChanged MipBox s =
     Inr (imageView_update (set_mip (spin_value (ctl_mip (viewSettings s)))) s)"
| "textChanged FaceBox s =
     Inr (imageView_update (set_face (spin_value (ctl_face (viewSettings s)))) s)"
| "textChanged StartFrameBox s =
     (case ctl_file (viewSettings s) of
        None \<Rightarrow> Inr s
      | Some a \<Rightarrow>
          and_then (deref (heap s) (Some a)) (\<lambda>f.
            let s1 = s\<lparr>heap := (heap s)
                       [a := Some (SetStartFrame (word_of_int (spin_value (ctl_startFrame (viewSettings s)))) f)]\<rparr>
            in Inr (if \<not> settingFile (viewSettings s1) then emit_fileModified s1 else s1)))"

text \<open>The lambda that \<open>setup_ui\<close> connects to \<open>QCheckBox::stateChanged\<close> of the check box
  of \<open>fl\<close>; \<open>newState\<close> is 0 (unchecked) or 2 (checked), and \<open>SetFlag\<close> takes it as a
  boolean.\<close>

definition stateChanged :: "vlUInt \<Rightarrow> int \<Rightarrow> app \<Rightarrow> error + app" where
  "stateChanged fl newState s =
     (case ctl_file (viewSettings s) of
        None \<Rightarrow> Inr s
      | Some a \<Rightarrow>
          and_then (deref (heap s) (Some a)) (\<lambda>f.
            let s1 = s\<lparr>heap := (heap s)[a := Some (SetFlag fl (newState \<noteq> 0) f)]\<rparr>
            in Inr (if \<not> settingFile (viewSettings s1) then emit_fileModified s1 else s1)))"

text \<open>A call \<open>g\<close> on a spin box, with Qt emitting \<open>textChanged\<close> when the call changed
  the value. A user who types into the box makes the same call as \<open>setValue\<close>.\<close>

definition box_call :: "spin \<Rightarrow> (QSpinBox \<Rightarrow> QSpinBox) \<Rightarrow> app \<Rightarrow> error + app" where
  "box_call b g s =
     (let old = get_box b (viewSettings s);
          new = g old;
          s1 = viewSettings_update (put_box b new) s
      in if spin_value new \<noteq> spin_value old then textChanged b s1 else Inr s1)"

definition box_setValue :: "spin \<Rightarrow> int \<Rightarrow> app \<Rightarrow> error + app" where
  "box_setValue b v = box_call b (setValue v)"

definition box_setRange :: "spin \<Rightarrow> int \<Rightarrow> int \<Rightarrow> app \<Rightarrow> error + app" where
  "box_setRange b lo hi = box_call b (setRange lo hi)"

text \<open>\<open>flagChecks_.find(fl)->second->setChecked(on)\<close>.\<close>

definition setChecked :: "vlUInt \<Rightarrow> bool \<Rightarrow> app \<Rightarrow> error + app" where
  "setChecked fl on s =
     (case flagChecks (viewSettings s) fl of
        None \<Rightarrow> Inl InvalidIterator
      | Some checked \<Rightarrow>
          if checked = on then Inr s
          else stateChanged fl (if on then 2 else 0)
                 (viewSettings_update (\<lambda>w. w\<lparr>flagChecks := (flagChecks w)(fl \<mapsto> on)\<rparr>) s))"

fun set_flags :: "vlUInt \<Rightarrow> TextureFlag list \<Rightarrow> app \<Rightarrow> error + app" where
  "set_flags flags [] s = Inr s"
| "set_flags flags (f # fs) s =
     and_then (setChecked (flag f) (flags AND flag f \<noteq> 0) s) (set_flags flags fs)"

definition ImageSettingsWidget_set_vtf :: "TextureFlag list \<Rightarrow> nat option \<Rightarrow> app \<Rightarrow> error + app" where
  "ImageSettingsWidget_set_vtf tbl file s0 =
     (let s = viewSettings_update (\<lambda>w. w\<lparr>settingFile := True, ctl_file := file\<rparr>) s0 in
      and_then (deref (heap s) file) (\<lambda>f.
      and_then (box_setValue StartFrameBox (sint (StartFrame f)) s) (\<lambda>s.
      and_then (box_setValue MipBox 0 s) (\<lambda>s.
      and_then (deref (heap s) file) (\<lambda>f.
      and_then (box_setValue FrameBox (sint (StartFrame f)) s) (\<lambda>s.
      and_then (box_setValue FaceBox 0 s) (\<lambda>s.
      and_then (deref (heap s) file) (\<lambda>f.
      and_then (box_setRange MipBox 0 (sint (MipmapCount f)) s) (\<lambda>s.
      and_then (deref (heap s) file) (\<lambda>f.
      and_then (box_setRange FrameBox 1 (sint (FrameCount f)) s) (\<lambda>s.
      and_then (deref (heap s) file) (\<lambda>f.
      and_then (box_setRange FaceBox 1 (sint (FaceCount f)) s) (\<lambda>s.
      and_then (deref (heap s) file) (\<lambda>f.
      and_then (box_setRange StartFrameBox 1 (sint (FrameCount f)) s) (\<lambda>s.
      and_then (deref (heap s) file) (\<lambda>f.
      and_then (set_flags (Flags f) tbl s) (\<lambda>s.
      Inr (viewSettings_update (\<lambda>w. w\<lparr>settingFile := False\<rparr>) s))))))))))))))))))"

text \<open>\<open>setup_ui\<close>: four fresh spin boxes, and one unchecked check box per flag value;
  \<open>insert\<close> keeps the first check box of a flag value that occurs twice in the table.\<close>

definition insert_check :: "(vlUInt \<rightharpoonup> bool) \<Rightarrow> TextureFlag \<Rightarrow> (vlUInt \<rightharpoonup> bool)" where
  "insert_check m f = (case m (flag f) of None \<Rightarrow> m(flag f \<mapsto> False) | Some _ \<Rightarrow> m)"

definition ImageSettingsWidget_setup_ui :: "TextureFlag list \<Rightarrow> ImageSettingsWidget" where
  "ImageSettingsWidget_setup_ui tbl =
     \<lparr>ctl_file = None, settingFile = False,
      ctl_frame = QSpinBox_new, ctl_mip = QSpinBox_new, ctl_face = QSpinBox_new,
      ctl_startFrame = QSpinBox_new,
      flagChecks = foldl insert_check Map.empty tbl\<rparr>"

subsection \<open>ViewerMainWindow: loading, unloading, saving\<close>

text \<open>\<open>emit vtfFileChanged(file)\<close> runs the four slots in the order in which \<open>setup_ui\<close>
  connected them.\<close>

definition emit_vtfFileChanged :: "codec \<Rightarrow> TextureFlag list \<Rightarrow> nat option \<Rightarrow> app \<Rightarrow> error + app" where
  "emit_vtfFileChanged cd tbl file s0 =
     and_then (update_info cd file (emit (vtfFileChanged file) s0)) (\<lambda>s.
     and_then (ResourceWidget_set_vtf cd file s) (\<lambda>s.
     and_then (ImageViewWidget_set_vtf file s) (\<lambda>s.
     ImageSettingsWidget_set_vtf tbl file s)))"

text \<open>The three overloads of \<open>load_file\<close>: from a pointer, from bytes, from a path.\<close>

definition load_file_ptr :: "codec \<Rightarrow> TextureFlag list \<Rightarrow> nat option \<Rightarrow> app \<Rightarrow> error + bool \<times> app" where
  "load_file_ptr cd tbl file s0 =
     and_then (emit_vtfFileChanged cd tbl file s0) (\<lambda>s.
       Inr (True, mainWindow_update (\<lambda>w. w\<lparr>win_file := file, win_path := []\<rparr>) s))"

text \<open>\<open>new CVTFFile()\<close> takes the next address and stores it in \<open>file_\<close> at once; the
  object holds what \<open>Load\<close> parsed, or is deleted again when \<open>Load\<close> refuses.\<close>

definition load_file_data :: "codec \<Rightarrow> TextureFlag list \<Rightarrow> vlByte list \<Rightarrow> app \<Rightarrow> error + bool \<times> app" where
  "load_file_data cd tbl data s0 =
     (let a = length (heap s0);
          s = mainWindow_update (\<lambda>w. w\<lparr>win_file := Some a\<rparr>) s0
      in case Load cd data of
           None \<Rightarrow>
             Inr (False, mainWindow_update (\<lambda>w. w\<lparr>win_file := None\<rparr>) (s\<lparr>heap := heap s @ [None]\<rparr>))
         | Some f \<Rightarrow>
             load_file_ptr cd tbl (win_file (mainWindow s)) (s\<lparr>heap := heap s @ [Some f]\<rparr>))"

text \<open>Modelled from the spec: \<open>util::read_file\<close> and \<open>str::get_filename\<close> are declared in
  common/util.hpp, which is not among the sources. Section 4.1: the file is read into
  memory, and an unreadable file fails the load; the title shows the basename of the
  path. The file system is the parameter \<open>fs\<close>; the number of bytes read is 0 for a file
  that cannot be read.\<close>

definition read_file :: "(string \<Rightarrow> vlByte list option) \<Rightarrow> string \<Rightarrow> nat \<times> vlByte list" where
  "read_file fs p = (case fs p of None \<Rightarrow> (0, []) | Some bytes \<Rightarrow> (length bytes, bytes))"

definition get_filename :: "string \<Rightarrow> string" where
  "get_filename p = rev (takeWhile (\<lambda>c. c \<noteq> CHR ''/'') (rev p))"

definition load_file_path ::
  "codec \<Rightarrow> TextureFlag list \<Rightarrow> (string \<Rightarrow> vlByte list option) \<Rightarrow> string \<Rightarrow> app \<Rightarrow> error + bool \<times> app" where
  "load_file_path cd tbl fs p s0 =
     (let numRead = fst (read_file fs p); buffer = snd (read_file fs p) in
      if numRead = 0 then Inr (False, s0)
      else
        and_then (load_file_data cd tbl buffer s0) (\<lambda>r.
          let ok = fst r;
              s1 = mainWindow_update
                     (\<lambda>w. w\<lparr>windowTitle := ''VTFView - ['' @ get_filename p @ '']''\<rparr>) (snd r);
              s2 = mainWindow_update (\<lambda>w. w\<lparr>win_path := p\<rparr>) s1
          in Inr (ok, s2)))"

text \<open>What \<open>unload_file\<close> does after the signal: \<open>delete file_\<close>, and two assignments.\<close>

definition release :: "nat \<Rightarrow> app \<Rightarrow> app" where
  "release a s =
     mainWindow_update (\<lambda>w. w\<lparr>win_file := None, win_path := []\<rparr>) (s\<lparr>heap := (heap s)[a := None]\<rparr>)"

definition unload_file :: "codec \<Rightarrow> TextureFlag list \<Rightarrow> app \<Rightarrow> error + app" where
  "unload_file cd tbl s0 =
     (case win_file (mainWindow s0) of
        None \<Rightarrow> Inr s0
      | Some a \<Rightarrow> and_then (emit_vtfFileChanged cd tbl None s0) (\<lambda>s. Inr (release a s)))"

text \<open>\<open>save\<close>: \<open>chosen\<close> is what the user answers to the save-as dialog, if it is shown;
  the empty string is a cancelled dialog.\<close>

definition save :: "codec \<Rightarrow> string \<Rightarrow> app \<Rightarrow> error + app" where
  "save cd chosen s0 =
     (if \<not> win_dirty (mainWindow s0) then Inr s0
      else
        let s1 = mainWindow_update (\<lambda>w. w\<lparr>win_dirty := False\<rparr>) s0;
            ask = (win_path (mainWindow s1) = []);
            s2 = (if ask then emit getSaveFileName s1 else s1)
        in
        if ask \<and> chosen = [] then Inr s2
        else
          let s3 = (if ask then mainWindow_update (\<lambda>w. w\<lparr>win_path := chosen\<rparr>) s2 else s2) in
          and_then (deref (heap s3) (win_file (mainWindow s3))) (\<lambda>f.
            let ok = Save cd f (win_path (mainWindow s3));
                s4 = emit (codec_Save (win_path (mainWindow s3)) ok) s3
            in
            if \<not> ok
            then Inr (emit (warning ''Could not save file!''
                        (''Failed to save file: '' @ vlGetLastError cd)) s4)
            else Inr (mainWindow_update (\<lambda>w. w\<lparr>windowTitle := butlast (windowTitle w)\<rparr>) s4)))"

text \<open>The program after the constructors have run. The initial values of the data
  members are in viewer.hpp, which is not among the sources; no document, no path, not
  dirty and a zero selection are taken here, and no theorem about an arbitrary state
  depends on them.\<close>

definition ViewerMainWindow_new :: "TextureFlag list \<Rightarrow> app" where
  "ViewerMainWindow_new tbl =
     \<lparr>heap = [], pixels = [],
      mainWindow = \<lparr>win_file = None, win_path = [], win_dirty = False, windowTitle = ''VTFView''\<rparr>,
      infoWidget = InfoWidget_setup_ui,
      resList = \<lparr>res_table = []\<rparr>,
      imageView = ImageViewWidget_new,
      viewSettings = ImageSettingsWidget_setup_ui tbl,
      trace = []\<rparr>"

subsection \<open>Words of the specification used in the statements\<close>

text \<open>The number of \<open>*\<close> characters a title ends in.\<close>

definition trailing_stars :: "string \<Rightarrow> nat" where
  "trailing_stars t = length (takeWhile (\<lambda>c. c = CHR ''*'') (rev t))"

text \<open>The widgets are as \<open>setup_ui\<close> built them: every field name that \<open>update_info\<close>
  looks up has its line edit, and every flag of the table has its check box.\<close>

definition fields_ok :: "app \<Rightarrow> bool" where
  "fields_ok s = list_all (\<lambda>n. info_fields (infoWidget s) n \<noteq> None) (FILE_FIELDS @ INFO_FIELDS)"

definition checks_ok :: "TextureFlag list \<Rightarrow> app \<Rightarrow> bool" where
  "checks_ok tbl s = list_all (\<lambda>f. flagChecks (viewSettings s) (flag f) \<noteq> None) tbl"

text \<open>The selection the canvas paints is the one the spin boxes show.\<close>

definition synced :: "app \<Rightarrow> bool" where
  "synced s =
     (view_frame (imageView s) = spin_value (ctl_frame (viewSettings s))
      \<and> view_face (imageView s) = spin_value (ctl_face (viewSettings s))
      \<and> view_mip (imageView s) = spin_value (ctl_mip (viewSettings s)))"

definition in_range :: "QSpinBox \<Rightarrow> int \<Rightarrow> bool" where
  "in_range b v = (spin_minimum b \<le> v \<and> v \<le> spin_maximum b)"

text \<open>What a call appended to the trace.\<close>

definition emitted :: "app \<Rightarrow> app \<Rightarrow> event list" where
  "emitted s s' = drop (length (trace s)) (trace s')"

text \<open>The outcome of a \<open>load_file\<close>: its boolean and the state it leaves (for a call
  that crashed, a program with no widgets set up).\<close>

definition returned :: "error + bool \<times> app \<Rightarrow> bool option" where
  "returned r = (case r of Inl e \<Rightarrow> None | Inr p \<Rightarrow> Some (fst p))"

definition state_after :: "error + bool \<times> app \<Rightarrow> app" where
  "state_after r = (case r of Inl e \<Rightarrow> ViewerMainWindow_new [] | Inr p \<Rightarrow> snd p)"

text \<open>The state a call leaves (for a call that crashed, a program with no widgets set
  up).\<close>

definition state_of :: "error + app \<Rightarrow> app" where
  "state_of r = (case r of Inl e \<Rightarrow> ViewerMainWindow_new [] | Inr s' \<Rightarrow> s')"

text \<open>The crash of a call, if it crashed.\<close>

definition failure :: "error + 'a \<Rightarrow> error option" where
  "failure r = (case r of Inl e \<Rightarrow> Some e | Inr x \<Rightarrow> None)"

subsection \<open>Words used in the proofs\<close>

text \<open>The settings widget is inside \<open>set_vtf\<close> for the file at address \<open>a\<close>: the guard
  is up and the file is a live object.\<close>

definition guarded :: "nat \<Rightarrow> app \<Rightarrow> bool" where
  "guarded a s =
     (settingFile (viewSettings s) \<and> ctl_file (viewSettings s) = Some a \<and> heap_at (heap s) a \<noteq> None)"

text \<open>A file without the two fields the settings widget writes, and the canvas without
  its selection.\<close>

definition geometry :: "CVTFFile \<Rightarrow> CVTFFile" where
  "geometry f = f\<lparr>StartFrame := 0, Flags := 0\<rparr>"

definition unselect :: "ImageViewWidget \<Rightarrow> ImageViewWidget" where
  "unselect v = v\<lparr>view_frame := 0, view_face := 0, view_mip := 0\<rparr>"

text \<open>A step that emits nothing and touches only the spin boxes, the check boxes, the
  guard, the canvas selection and the two editable fields of the file at \<open>a\<close>.\<close>

definition quiet :: "nat \<Rightarrow> app \<Rightarrow> app \<Rightarrow> bool" where
  "quiet a s s' =
     (trace s' = trace s \<and> mainWindow s' = mainWindow s \<and> pixels s' = pixels s
      \<and> infoWidget s' = infoWidget s \<and> resList s' = resList s
      \<and> unselect (imageView s') = unselect (imageView s)
      \<and> length (heap s') = length (heap s)
      \<and> (\<forall>b. map_option geometry (heap_at (heap s') b) = map_option geometry (heap_at (heap s) b))
      \<and> (\<forall>b. b = a \<or> heap_at (heap s') b = heap_at (heap s) b)
      \<and> (\<forall>fl. (flagChecks (viewSettings s') fl = None) = (flagChecks (viewSettings s) fl = None)))"

subsection \<open>Concrete inputs\<close>

text \<open>The flag values of VTFLib's \<open>VTFImageFlag\<close>; sRGB and the deprecated no-compress
  flag share a bit.\<close>

fun flag_value :: "VTFImageFlag \<Rightarrow> vlUInt" where
  "flag_value TEXTUREFLAGS_POINTSAMPLE = 0x00000001"
| "flag_value TEXTUREFLAGS_TRILINEAR = 0x00000002"
| "flag_value TEXTUREFLAGS_CLAMPS = 0x00000004"
| "flag_value TEXTUREFLAGS_CLAMPT = 0x00000008"
| "flag_value TEXTUREFLAGS_CLAMPU = 0x02000000"
| "flag_value TEXTUREFLAGS_ANISOTROPIC = 0x00000010"
| "flag_value TEXTUREFLAGS_HINT_DXT5 = 0x00000020"
| "flag_value TEXTUREFLAGS_SRGB = 0x00000040"
| "flag_value TEXTUREFLAGS_DEPRECATED_NOCOMPRESS = 0x00000040"
| "flag_value TEXTUREFLAGS_NORMAL = 0x00000080"
| "flag_value TEXTUREFLAGS_NOMIP = 0x00000100"
| "flag_value TEXTUREFLAGS_NOLOD = 0x00000200"
| "flag_value TEXTUREFLAGS_MINMIP = 0x00000400"
| "flag_value TEXTUREFLAGS_PROCEDURAL = 0x00000800"
| "flag_value TEXTUREFLAGS_ONEBITALPHA = 0x00001000"
| "flag_value TEXTUREFLAGS_EIGHTBITALPHA = 0x00002000"
| "flag_value TEXTUREFLAGS_ENVMAP = 0x00004000"
| "flag_value TEXTUREFLAGS_RENDERTARGET = 0x00008000"
| "flag_value TEXTUREFLAGS_DEPTHRENDERTARGET = 0x00010000"
| "flag_value TEXTUREFLAGS_NODEBUGOVERRIDE = 0x00020000"
| "flag_value TEXTUREFLAGS_SINGLECOPY = 0x00040000"
| "flag_value TEXTUREFLAGS_DEPRECATED_ONEOVERMIPLEVELINALPHA = 0x00080000"
| "flag_value TEXTUREFLAGS_DEPRECATED_PREMULTCOLORBYONEOVERMIPLEVEL = 0x00100000"
| "flag_value TEXTUREFLAGS_DEPRECATED_NORMALTODUDV = 0x00200000"
| "flag_value TEXTUREFLAGS_DEPRECATED_ALPHATESTMIPGENERATION = 0x00400000"
| "flag_value TEXTUREFLAGS_NODEPTHBUFFER = 0x00800000"
| "flag_value TEXTUREFLAGS_DEPRECATED_NICEFILTERED = 0x01000000"
| "flag_value TEXTUREFLAGS_VERTEXTEXTURE = 0x04000000"
| "flag_value TEXTUREFLAGS_SSBUMP = 0x08000000"
| "flag_value TEXTUREFLAGS_DEPRECATED_UNFILTERABLE_OK = 0x10000000"
| "flag_value TEXTUREFLAGS_BORDER = 0x20000000"
| "flag_value TEXTUREFLAGS_DEPRECATED_SPECVAR_RED = 0x40000000"
| "flag_value TEXTUREFLAGS_DEPRECATED_SPECVAR_ALPHA = 0x80000000"

definition flags_table :: "TextureFlag list" where
  "flags_table = TEXTURE_FLAGS flag_value"

text \<open>A 256 by 256 texture of one frame in a format with alpha, and an animated one of
  five frames that starts at frame 3.\<close>

definition doc_A :: CVTFFile where
  "doc_A = \<lparr>Width = 256, Height = 256, Depth = 1, FrameCount = 1, FaceCount = 1,
     MipmapCount = 9, Format = IMAGE_FORMAT_OTHER 15, MajorVersion = 7, MinorVersion = 2,
     Size = 87472, Reflectivity = (0, 0, 0), StartFrame = 0, Flags = 0x2300,
     Resources = [(0x30, 87376)]\<rparr>"

definition doc_B :: CVTFFile where
  "doc_B = doc_A\<lparr>FrameCount := 5, StartFrame := 3\<rparr>"

text \<open>A codec that parses the one-byte buffers 1 and 2 as the two documents and refuses
  every other buffer, cannot write to \<open>maps/a.vtf\<close> (a read-only file), has no data for
  mip level 5 and converts whatever data there is.\<close>

definition test_codec :: codec where
  "test_codec =
     \<lparr>Load = (\<lambda>bytes. if bytes = [1] then Some doc_A else if bytes = [2] then Some doc_B else None),
      Save = (\<lambda>f p. p \<noteq> ''maps/a.vtf''),
      vlGetLastError = ''Error opening file.'',
      uiAlphaBitsPerPixel =
        (\<lambda>fmt. case fmt of IMAGE_FORMAT_RGBA8888 \<Rightarrow> 8 | IMAGE_FORMAT_RGB888 \<Rightarrow> 0
                | IMAGE_FORMAT_OTHER n \<Rightarrow> if n = 15 then 8 else 0),
      ComputeMipmapDimensions =
        (\<lambda>w h d m. (max 1 (drop_bit (unat m) w), max 1 (drop_bit (unat m) h), max 1 (drop_bit (unat m) d))),
      ComputeMipmapSize = (\<lambda>w h d m fmt. max 1 (drop_bit (unat m) w) * max 1 (drop_bit (unat m) h) * 4),
      GetData = (\<lambda>f frame face slice m. if m = 5 then None else Some []),
      Convert = (\<lambda>src w h srcFormat dstFormat. src \<noteq> None),
      ImageFormatToString = (\<lambda>fmt. ''DXT5''),
      GetResourceName = (\<lambda>ty. ''Image'')\<rparr>"

definition test_fs :: "string \<Rightarrow> vlByte list option" where
  "test_fs p =
     (if p = ''maps/a.vtf'' then Some [1]
      else if p = ''maps/a**'' then Some [2]
      else if p = ''maps/broken.vtf'' then Some [9, 9]
      else None)"

text \<open>States the program reaches: after start-up; after opening \<open>maps/a.vtf\<close>; after the
  user then ticks sRGB; after a first paint of the opened file, and after the user then
  asks for mip level 5; after opening the second document from memory on top of the
  first.\<close>

definition app0 :: app where
  "app0 = ViewerMainWindow_new flags_table"

definition loaded_A :: app where
  "loaded_A = state_after (load_file_path test_codec flags_table test_fs ''maps/a.vtf'' app0)"

definition edited_A :: app where
  "edited_A = state_of (setChecked (flag_value TEXTUREFLAGS_SRGB) True loaded_A)"

definition painted_A :: app where
  "painted_A = state_of (paintEvent test_codec loaded_A)"

definition mip5_A :: app where
  "mip5_A = state_of (box_setValue MipBox 5 painted_A)"

definition loaded_B :: app where
  "loaded_B = state_after (load_file_data test_codec flags_table [2] loaded_A)"

text \<open>The second document, opened from memory and so without a path, after the user
  ticks sRGB.\<close>

definition edited_B :: app where
  "edited_B = state_of (setChecked (flag_value TEXTUREFLAGS_SRGB) True loaded_B)"

text \<open>With the edit of the first file unsaved, the user opens the file \<open>maps/a**\<close> and
  saves.\<close>

definition reopened :: app where
  "reopened = state_after (load_file_path test_codec flags_table test_fs ''maps/a**'' edited_A)"

definition saved :: app where
  "saved = state_of (save test_codec [] reopened)"

section \<open>Basic facts\<close>

lemma and_then_Inl: "and_then (Inl e) k = Inl e"
  by (simp add: and_then_def)

lemma and_then_Inr: "and_then (Inr x) k = k x"
  by (simp add: and_then_def)

lemma endsWith_star: "endsWith t ''*'' = (t \<noteq> [] \<and> last t = CHR ''*'')"
proof (cases t rule: rev_cases)
  case Nil
  then show ?thesis by (simp add: endsWith_def)
next
  case (snoc ys y)
  then show ?thesis by (auto simp: endsWith_def)
qed

lemma deref_live: "heap_at h a = Some f \<Longrightarrow> deref h (Some a) = Inr f"
  by (simp add: deref_def)

lemma deref_null: "deref h None = Inl NullDereference"
  by (simp add: deref_def)

lemma heap_at_update:
  "heap_at (h[a := x]) b = (if b = a \<and> a < length h then x else heap_at h b)"
  by (simp add: heap_at_def)

lemma heap_at_append:
  "heap_at (h @ [x]) b = (if b = length h then x else heap_at h b)"
  by (auto simp: heap_at_def nth_append)

section \<open>The dirty mark on the title\<close>

lemma mark_modified_title:
  "windowTitle (mark_modified w) =
     (if endsWith (windowTitle w) ''*'' then windowTitle w else windowTitle w @ ''*'')"
  by (simp add: mark_modified_def Let_def)

lemma mark_modified_dirty: "win_dirty (mark_modified w)"
  by (simp add: mark_modified_def Let_def)

lemma mark_modified_idem: "mark_modified (mark_modified w) = mark_modified w"
  by (simp add: mark_modified_def Let_def endsWith_star)

lemma mark_modified_funpow: "0 < n \<Longrightarrow> (mark_modified ^^ n) w = mark_modified w"
proof (induction n)
  case 0
  then show ?case by simp
next
  case (Suc n)
  show ?case
  proof (cases "n = 0")
    case True
    then show ?thesis by simp
  next
    case False
    with Suc have "(mark_modified ^^ n) w = mark_modified w" by simp
    then show ?thesis by (simp add: mark_modified_idem)
  qed
qed

lemma trailing_stars_snoc:
  "trailing_stars (t @ [c]) = (if c = CHR ''*'' then Suc (trailing_stars t) else 0)"
  by (simp add: trailing_stars_def)

lemma trailing_stars_pos: "0 < trailing_stars t \<longleftrightarrow> endsWith t ''*''"
proof (cases t rule: rev_cases)
  case Nil
  then show ?thesis by (simp add: trailing_stars_def endsWith_def)
next
  case (snoc ys y)
  then show ?thesis by (simp add: trailing_stars_snoc endsWith_star)
qed

lemma trailing_stars_mark:
  "trailing_stars (windowTitle (mark_modified w)) = max 1 (trailing_stars (windowTitle w))"
proof (cases "endsWith (windowTitle w) ''*''")
  case True
  then have "0 < trailing_stars (windowTitle w)" by (simp add: trailing_stars_pos)
  with True show ?thesis by (simp add: mark_modified_title)
next
  case False
  then have "trailing_stars (windowTitle w) = 0"
    using trailing_stars_pos [of "windowTitle w"] by simp
  with False show ?thesis by (simp add: mark_modified_title trailing_stars_snoc)
qed

text \<open>
  C9, as the code has it. Any number \<open>n \<ge> 1\<close> of consecutive \<open>mark_modified\<close> calls
  sets the dirty bit and gives the title that one call gives: the title itself when it
  already ends in \<open>*\<close>, and the title with one \<open>*\<close> appended otherwise. The result ends
  in \<open>max 1 k\<close> stars, where \<open>k\<close> is the number of stars the title ended in before: in
  exactly one star unless the title already ended in two or more.
\<close>

theorem mark_modified_repeated:
  assumes "0 < n"
  shows "win_dirty ((mark_modified ^^ n) w)
     \<and> windowTitle ((mark_modified ^^ n) w) =
         (if endsWith (windowTitle w) ''*'' then windowTitle w else windowTitle w @ ''*'')
     \<and> trailing_stars (windowTitle ((mark_modified ^^ n) w)) = max 1 (trailing_stars (windowTitle w))"
  using assms
  by (simp add: mark_modified_funpow mark_modified_dirty mark_modified_title [symmetric]
      trailing_stars_mark)

theorem mark_modified_repeated_witness:
  "win_dirty ((mark_modified ^^ 3) (mainWindow (ViewerMainWindow_new flags_table)))
     \<and> windowTitle ((mark_modified ^^ 3) (mainWindow (ViewerMainWindow_new flags_table))) = ''VTFView*''
     \<and> trailing_stars (windowTitle ((mark_modified ^^ 3) (mainWindow (ViewerMainWindow_new flags_table)))) = 1"
  using mark_modified_repeated [of 3 "mainWindow (ViewerMainWindow_new flags_table)"]
  by (simp add: ViewerMainWindow_new_def endsWith_def trailing_stars_def)

text \<open>
  C9 as stated fails for a title that already ends in two stars: the guard of
  \<open>mark_modified\<close> looks at the last character only, so the call appends nothing and
  the title keeps both stars. The program reaches such a title with the dirty bit
  clear: with an edit unsaved it opens the file \<open>maps/a**\<close>, which replaces the title
  but not the dirty bit, and saves, which cuts the last character off the title.
\<close>

theorem mark_modified_two_stars:
  "windowTitle (mainWindow saved) = ''VTFView - [a**''
   \<and> \<not> win_dirty (mainWindow saved)
   \<and> windowTitle ((mark_modified ^^ 1) (mainWindow saved)) = ''VTFView - [a**''
   \<and> trailing_stars (windowTitle ((mark_modified ^^ 1) (mainWindow saved))) = 2"
  by code_simp

section \<open>What the constructors establish\<close>

text \<open>For every table of flags, the program starts with every line edit and every check
  box that the slots look up, and with the canvas selection in step with the spin boxes.\<close>

lemma insert_check_keeps: "m k \<noteq> None \<Longrightarrow> insert_check m f k \<noteq> None"
  by (auto simp: insert_check_def split: option.splits)

lemma insert_check_adds: "insert_check m f (flag f) \<noteq> None"
  by (auto simp: insert_check_def split: option.splits)

lemma foldl_insert_check_keeps: "m k \<noteq> None \<Longrightarrow> foldl insert_check m tbl k \<noteq> None"
proof (induction tbl arbitrary: m)
  case Nil
  then show ?case by simp
next
  case (Cons t tbl)
  from Cons.prems have "insert_check m t k \<noteq> None" by (rule insert_check_keeps)
  then have "foldl insert_check (insert_check m t) tbl k \<noteq> None" by (rule Cons.IH)
  then show ?case by simp
qed

lemma foldl_insert_check_all:
  "f \<in> set tbl \<Longrightarrow> foldl insert_check m tbl (flag f) \<noteq> None"
proof (induction tbl arbitrary: m)
  case Nil
  then show ?case by simp
next
  case (Cons t tbl)
  show ?case
  proof (cases "f = t")
    case True
    have "foldl insert_check (insert_check m t) tbl (flag t) \<noteq> None"
      by (rule foldl_insert_check_keeps) (rule insert_check_adds)
    with True show ?thesis by simp
  next
    case False
    with Cons.prems have "f \<in> set tbl" by simp
    then have "foldl insert_check (insert_check m t) tbl (flag f) \<noteq> None" by (rule Cons.IH)
    then show ?thesis by simp
  qed
qed

lemma setup_ui_ok:
  "fields_ok (ViewerMainWindow_new tbl)" "checks_ok tbl (ViewerMainWindow_new tbl)"
  "synced (ViewerMainWindow_new tbl)"
  "spin_minimum (ctl_mip (viewSettings (ViewerMainWindow_new tbl))) \<le> 0"
  "spin_minimum (ctl_face (viewSettings (ViewerMainWindow_new tbl))) \<le> 1"
proof -
  have "flagChecks (viewSettings (ViewerMainWindow_new tbl)) (flag f) \<noteq> None" if "f \<in> set tbl" for f
    using foldl_insert_check_all [OF that, of Map.empty]
    by (simp add: ViewerMainWindow_new_def ImageSettingsWidget_setup_ui_def)
  then show "checks_ok tbl (ViewerMainWindow_new tbl)"
    unfolding checks_ok_def list_all_iff by blast
qed (simp_all add: fields_ok_def ViewerMainWindow_new_def InfoWidget_setup_ui_def synced_def
      ImageViewWidget_new_def ImageSettingsWidget_setup_ui_def QSpinBox_new_def list_all_iff)

section \<open>The concrete states\<close>

lemma app0_ok:
  "fields_ok app0" "checks_ok flags_table app0" "synced app0"
  "spin_minimum (ctl_mip (viewSettings app0)) \<le> 0" "spin_minimum (ctl_face (viewSettings app0)) \<le> 1"
  "in_range (ctl_frame (viewSettings app0)) 3" "in_range (ctl_startFrame (viewSettings app0)) 3"
proof -
  show "fields_ok app0" "checks_ok flags_table app0" "synced app0"
    "spin_minimum (ctl_mip (viewSettings app0)) \<le> 0" "spin_minimum (ctl_face (viewSettings app0)) \<le> 1"
    unfolding app0_def by (rule setup_ui_ok)+
qed (simp_all add: app0_def ViewerMainWindow_new_def ImageSettingsWidget_setup_ui_def QSpinBox_new_def
      in_range_def)

lemma loaded_A_main:
  "mainWindow loaded_A =
     \<lparr>win_file = Some 0, win_path = ''maps/a.vtf'', win_dirty = False,
      windowTitle = ''VTFView - [a.vtf]''\<rparr>"
  by code_simp

lemma loaded_A_heap: "heap loaded_A = [Some (doc_A\<lparr>StartFrame := 1\<rparr>)]"
  by code_simp

lemma loaded_A_view:
  "imageView loaded_A =
     \<lparr>view_image = QImage_null, imgBuf = None, view_file = Some 0, view_zoom = 1, view_pos = (0, 0),
      view_frame = 1, view_face = 1, view_mip = 0,
      currentFrame = - 1, currentFace = - 1, currentMip = - 1, view_size = (256, 256)\<rparr>"
  by code_simp

lemma loaded_A_ok: "fields_ok loaded_A" "checks_ok flags_table loaded_A"
  by code_simp+

text \<open>With the one-frame file open, the Frame and Start Frame boxes have the range 1 to 1.\<close>

lemma loaded_A_boxes:
  "ctl_frame (viewSettings loaded_A) = \<lparr>spin_value = 1, spin_minimum = 1, spin_maximum = 1\<rparr>"
  "ctl_startFrame (viewSettings loaded_A) = \<lparr>spin_value = 1, spin_minimum = 1, spin_maximum = 1\<rparr>"
  "ctl_mip (viewSettings loaded_A) = \<lparr>spin_value = 0, spin_minimum = 0, spin_maximum = 9\<rparr>"
  "ctl_face (viewSettings loaded_A) = \<lparr>spin_value = 1, spin_minimum = 1, spin_maximum = 1\<rparr>"
  by code_simp+

lemma edited_A_main:
  "mainWindow edited_A =
     \<lparr>win_file = Some 0, win_path = ''maps/a.vtf'', win_dirty = True,
      windowTitle = ''VTFView - [a.vtf]*''\<rparr>"
  by code_simp

lemma edited_A_heap: "heap edited_A = [Some (doc_A\<lparr>StartFrame := 1, Flags := 0x2340\<rparr>)]"
  by code_simp

lemma edited_A_view_file: "view_file (imageView edited_A) = Some 0"
  by code_simp

lemma edited_B_main:
  "mainWindow edited_B =
     \<lparr>win_file = Some 1, win_path = [], win_dirty = True, windowTitle = ''VTFView - [a.vtf]*''\<rparr>"
  by code_simp

lemma mip5_A_view:
  "imageView mip5_A =
     \<lparr>view_image = \<lparr>img_data = Some 0, img_width = 256, img_height = 256,
                      img_format = Format_RGBA8888\<rparr>,
      imgBuf = Some 0, view_file = Some 0, view_zoom = 1, view_pos = (0, 0),
      view_frame = 1, view_face = 1, view_mip = 5,
      currentFrame = 1, currentFace = 1, currentMip = 0, view_size = (256, 256)\<rparr>"
  by code_simp

lemma mip5_A_heap: "heap mip5_A = [Some (doc_A\<lparr>StartFrame := 1\<rparr>)]"
  by code_simp

lemma mip5_A_pixels: "pixels mip5_A = [Some 262144]"
  by code_simp

section \<open>Saving\<close>

text \<open>
  C1, on the code. The claim asks that a save that does not complete leaves the dirty
  bit set. \<open>save\<close> clears the bit before it asks for a path or calls the codec, so
  whenever the dialog is cancelled or the codec refuses, \<open>save\<close> returns with the
  dirty bit cleared; the title is not touched and so keeps its star.
\<close>

theorem save_incomplete_clears_dirty:
  assumes "win_dirty (mainWindow s)"
    and "(win_path (mainWindow s) = [] \<and> chosen = [])
         \<or> (\<exists>f. deref (heap s) (win_file (mainWindow s)) = Inr f
                \<and> \<not> Save cd f (if win_path (mainWindow s) = [] then chosen else win_path (mainWindow s)))"
  shows "\<exists>s'. save cd chosen s = Inr s'
           \<and> \<not> win_dirty (mainWindow s')
           \<and> windowTitle (mainWindow s') = windowTitle (mainWindow s)
           \<and> win_file (mainWindow s') = win_file (mainWindow s)"
  using assms
  by (auto simp: save_def Let_def and_then_def emit_def split: sum.splits)

text \<open>Both cases: the codec refuses to write the edited first document to
  \<open>maps/a.vtf\<close>, and the user cancels the save-as dialog of the edited second document,
  which has no path.\<close>

theorem save_incomplete_clears_dirty_witness:
  "win_dirty (mainWindow edited_A)
   \<and> endsWith (windowTitle (mainWindow edited_A)) ''*''
   \<and> (\<exists>s'. save test_codec [] edited_A = Inr s'
           \<and> \<not> win_dirty (mainWindow s')
           \<and> windowTitle (mainWindow s') = windowTitle (mainWindow edited_A)
           \<and> win_file (mainWindow s') = win_file (mainWindow edited_A))
   \<and> win_dirty (mainWindow edited_B) \<and> win_path (mainWindow edited_B) = []
   \<and> (\<exists>s'. save test_codec [] edited_B = Inr s'
           \<and> \<not> win_dirty (mainWindow s')
           \<and> windowTitle (mainWindow s') = ''VTFView - [a.vtf]*'')"
proof -
  have d: "win_dirty (mainWindow edited_A)" by (simp add: edited_A_main)
  have e: "endsWith (windowTitle (mainWindow edited_A)) ''*''"
    by (simp add: edited_A_main endsWith_def)
  have p: "win_path (mainWindow edited_A) = ''maps/a.vtf''" by (simp add: edited_A_main)
  have f: "deref (heap edited_A) (win_file (mainWindow edited_A))
             = Inr (doc_A\<lparr>StartFrame := 1, Flags := 0x2340\<rparr>)"
    by (simp add: edited_A_main edited_A_heap deref_def heap_at_def)
  have n: "\<not> Save test_codec (doc_A\<lparr>StartFrame := 1, Flags := 0x2340\<rparr>) ''maps/a.vtf''"
    by (simp add: test_codec_def)
  have refused: "\<exists>s'. save test_codec [] edited_A = Inr s'
           \<and> \<not> win_dirty (mainWindow s')
           \<and> windowTitle (mainWindow s') = windowTitle (mainWindow edited_A)
           \<and> win_file (mainWindow s') = win_file (mainWindow edited_A)"
    using save_incomplete_clears_dirty [of edited_A "[]" test_codec] d p f n by simp
  have cancelled: "\<exists>s'. save test_codec [] edited_B = Inr s'
           \<and> \<not> win_dirty (mainWindow s')
           \<and> windowTitle (mainWindow s') = ''VTFView - [a.vtf]*''"
    using save_incomplete_clears_dirty [of edited_B "[]" test_codec] by (auto simp: edited_B_main)
  from refused cancelled d e show ?thesis by (simp add: edited_B_main)
qed

section \<open>Loading\<close>

text \<open>
  C2, on the code. The claim asks that a rejected buffer leaves the current VTF
  handle, the path and the dirty bit as they were. \<open>load_file\<close> stores the new object
  in \<open>file_\<close> before it asks the codec, and sets \<open>file_\<close> to null when the codec
  refuses: path and dirty bit are kept, but the handle of the main window is null
  afterwards, whatever it was. The object it pointed to is not deleted, no signal is
  emitted, and the widgets still hold the old pointer.
\<close>

theorem load_rejected_drops_handle:
  assumes "Load cd data = None"
  shows "\<exists>s'. load_file_data cd tbl data s = Inr (False, s')
           \<and> win_file (mainWindow s') = None
           \<and> win_path (mainWindow s') = win_path (mainWindow s)
           \<and> win_dirty (mainWindow s') = win_dirty (mainWindow s)
           \<and> heap s' = heap s @ [None]
           \<and> imageView s' = imageView s \<and> viewSettings s' = viewSettings s
           \<and> trace s' = trace s"
  using assms by (simp add: load_file_data_def Let_def)

theorem load_rejected_drops_handle_witness:
  "win_file (mainWindow edited_A) = Some 0
   \<and> (\<exists>s'. load_file_data test_codec flags_table [9, 9] edited_A = Inr (False, s')
           \<and> win_file (mainWindow s') = None
           \<and> win_dirty (mainWindow s')
           \<and> view_file (imageView s') = Some 0
           \<and> heap_at (heap s') 0 \<noteq> None)"
proof -
  have l: "Load test_codec [9, 9] = None" by (simp add: test_codec_def)
  have a: "win_file (mainWindow edited_A) = Some 0" by (simp add: edited_A_main)
  have d: "win_dirty (mainWindow edited_A)" by (simp add: edited_A_main)
  have v: "view_file (imageView edited_A) = Some 0" by (rule edited_A_view_file)
  have h: "heap_at (heap edited_A @ [None]) 0 \<noteq> None" by (simp add: edited_A_heap heap_at_def)
  from load_rejected_drops_handle [OF l, of flags_table edited_A] a d v h
  show ?thesis by auto
qed

text \<open>
  C5, on the code. The claim asks that a file the codec rejects leaves title and path
  alone. \<open>load_file\<close> tests only the number of bytes read before it goes on; the
  result of the parse is returned but not looked at, so for a readable file that the
  codec rejects the call returns false with the title and the path set to the new file
  (and, by C2, with a null handle).
\<close>

theorem load_path_rejected_updates_title:
  assumes "fs p = Some bytes" and "bytes \<noteq> []" and "Load cd bytes = None"
  shows "\<exists>s'. load_file_path cd tbl fs p s = Inr (False, s')
           \<and> windowTitle (mainWindow s') = ''VTFView - ['' @ get_filename p @ '']''
           \<and> win_path (mainWindow s') = p
           \<and> win_file (mainWindow s') = None"
  using assms
  by (simp add: load_file_path_def read_file_def load_file_data_def Let_def and_then_def)

theorem load_path_rejected_updates_title_witness:
  "windowTitle (mainWindow loaded_A) = ''VTFView - [a.vtf]''
   \<and> win_path (mainWindow loaded_A) = ''maps/a.vtf''
   \<and> (\<exists>s'. load_file_path test_codec flags_table test_fs ''maps/broken.vtf'' loaded_A = Inr (False, s')
           \<and> windowTitle (mainWindow s') = ''VTFView - [broken.vtf]''
           \<and> win_path (mainWindow s') = ''maps/broken.vtf''
           \<and> win_file (mainWindow s') = None)"
proof -
  have t: "windowTitle (mainWindow loaded_A) = ''VTFView - [a.vtf]''" by (simp add: loaded_A_main)
  have p: "win_path (mainWindow loaded_A) = ''maps/a.vtf''" by (simp add: loaded_A_main)
  have f: "test_fs ''maps/broken.vtf'' = Some [9, 9]" by (simp add: test_fs_def)
  have l: "Load test_codec [9, 9] = None" by (simp add: test_codec_def)
  have g: "get_filename ''maps/broken.vtf'' = ''broken.vtf''" by (simp add: get_filename_def)
  from load_path_rejected_updates_title
         [of test_fs "''maps/broken.vtf''" "[9, 9]" test_codec flags_table loaded_A] t p f l g
  show ?thesis by simp
qed

text \<open>The part of C5 that the code does keep: a file that cannot be read, or is empty,
  changes nothing.\<close>

lemma load_path_unreadable:
  assumes "fs p = None \<or> fs p = Some []"
  shows "load_file_path cd tbl fs p s = Inr (False, s)"
  using assms by (auto simp: load_file_path_def read_file_def Let_def)

section \<open>Painting\<close>

text \<open>
  C6, on the code. The claim asks that a paint whose conversion fails keeps the
  previously decoded buffer alive. \<open>paintEvent\<close> frees the old buffer before it calls
  \<open>Convert\<close>: when the conversion fails the paint logs the diagnostic, draws nothing
  and leaves the cache key alone, but the old buffer is already freed, and \<open>image_\<close>
  is still the image built over it.
\<close>

theorem failed_decode_frees_buffer:
  assumes "deref (heap s) (view_file (imageView s)) = Inr f"
    and "view_frame (imageView s) \<noteq> currentFrame (imageView s)
         \<or> view_mip (imageView s) \<noteq> currentMip (imageView s)
         \<or> view_face (imageView s) \<noteq> currentFace (imageView s)"
    and "imgBuf (imageView s) = Some b" and "live s b"
    and "\<not> Convert cd
            (GetData cd f (word_of_int (view_frame (imageView s))) (word_of_int (view_face (imageView s))) 0
               (word_of_int (view_mip (imageView s))))
            (fst (ComputeMipmapDimensions cd (Width f) (Height f) (Depth f) (word_of_int (view_mip (imageView s)))))
            (fst (snd (ComputeMipmapDimensions cd (Width f) (Height f) (Depth f) (word_of_int (view_mip (imageView s))))))
            (Format f)
            (if 0 < uiAlphaBitsPerPixel cd (Format f) then IMAGE_FORMAT_RGBA8888 else IMAGE_FORMAT_RGB888)"
  shows "\<exists>s'. paintEvent cd s = Inr s'
           \<and> emitted s s' =
               [codec_Convert (Format f)
                  (if 0 < uiAlphaBitsPerPixel cd (Format f) then IMAGE_FORMAT_RGBA8888 else IMAGE_FORMAT_RGB888)
                  False,
                cerr ''Could not convert image for display.\<newline>'']
           \<and> currentFrame (imageView s') = currentFrame (imageView s)
           \<and> currentFace (imageView s') = currentFace (imageView s)
           \<and> currentMip (imageView s') = currentMip (imageView s)
           \<and> view_mip (imageView s') = view_mip (imageView s)
           \<and> view_image (imageView s') = view_image (imageView s)
           \<and> \<not> live s' b
           \<and> imgBuf (imageView s') = Some (length (pixels s))"
  using assms
  by (auto simp: paintEvent_def Let_def and_then_def emit_def emitted_def malloc_def free_def live_def
      heap_at_def nth_append)

theorem failed_decode_frees_buffer_witness:
  "live mip5_A 0 \<and> img_data (view_image (imageView mip5_A)) = Some 0
   \<and> (\<exists>s'. paintEvent test_codec mip5_A = Inr s'
           \<and> \<not> live s' 0
           \<and> img_data (view_image (imageView s')) = Some 0
           \<and> currentMip (imageView s') = 0 \<and> view_mip (imageView s') = 5)"
proof -
  have d: "deref (heap mip5_A) (view_file (imageView mip5_A)) = Inr (doc_A\<lparr>StartFrame := 1\<rparr>)"
    by (simp add: mip5_A_heap mip5_A_view deref_def heap_at_def)
  have k: "view_mip (imageView mip5_A) \<noteq> currentMip (imageView mip5_A)"
    by (simp add: mip5_A_view)
  have b: "imgBuf (imageView mip5_A) = Some 0" by (simp add: mip5_A_view)
  have l: "live mip5_A 0" by (simp add: live_def heap_at_def mip5_A_pixels)
  have i: "img_data (view_image (imageView mip5_A)) = Some 0" by (simp add: mip5_A_view)
  have c: "\<not> Convert test_codec
            (GetData test_codec (doc_A\<lparr>StartFrame := 1\<rparr>) fr fa 0 (word_of_int (view_mip (imageView mip5_A))))
            w h srcFormat dstFormat" for fr fa w h srcFormat dstFormat
    by (simp add: test_codec_def mip5_A_view)
  from failed_decode_frees_buffer [OF d _ b l c] k obtain s' where
    "paintEvent test_codec mip5_A = Inr s'"
    "currentMip (imageView s') = currentMip (imageView mip5_A)"
    "view_mip (imageView s') = view_mip (imageView mip5_A)"
    "view_image (imageView s') = view_image (imageView mip5_A)"
    "\<not> live s' 0"
    by blast
  then show ?thesis using l i by (auto simp: mip5_A_view)
qed

text \<open>The paint after the failed one, with the selection back at the cached key,
  decodes nothing and draws the image whose memory the failed paint freed.\<close>

lemma repaint_after_failed_decode:
  "failure (and_then (paintEvent test_codec mip5_A)
     (\<lambda>s. and_then (box_setValue MipBox 0 s) (paintEvent test_codec))) = Some DanglingDereference"
  by code_simp

text \<open>
  C8. A paint that decodes calls \<open>Convert\<close> once, first of all it does, with the
  target format RGBA8888 exactly when the codec reports alpha bits for the format of
  the file, and RGB888 exactly when it reports none; the image built after a
  successful conversion has the matching format.
\<close>

theorem decode_target_format:
  assumes "deref (heap s) (view_file (imageView s)) = Inr f"
    and "view_frame (imageView s) \<noteq> currentFrame (imageView s)
         \<or> view_mip (imageView s) \<noteq> currentMip (imageView s)
         \<or> view_face (imageView s) \<noteq> currentFace (imageView s)"
  shows "\<exists>s' target ok rest. paintEvent cd s = Inr s'
           \<and> emitted s s' = codec_Convert (Format f) target ok # rest
           \<and> (target = IMAGE_FORMAT_RGBA8888 \<longleftrightarrow> 0 < uiAlphaBitsPerPixel cd (Format f))
           \<and> (target = IMAGE_FORMAT_RGB888 \<longleftrightarrow> \<not> 0 < uiAlphaBitsPerPixel cd (Format f))
           \<and> (ok \<longrightarrow> img_format (view_image (imageView s')) =
                 (if 0 < uiAlphaBitsPerPixel cd (Format f) then Format_RGBA8888 else Format_RGB888))"
  using assms
  by (cases "imgBuf (imageView s)")
     (auto simp: paintEvent_def Let_def and_then_def emit_def emitted_def malloc_def free_def live_def
        heap_at_def painter_drawImage_def nth_append)

theorem decode_target_format_witness:
  "\<exists>s' rest. paintEvent test_codec loaded_A = Inr s'
     \<and> emitted loaded_A s' = codec_Convert (IMAGE_FORMAT_OTHER 15) IMAGE_FORMAT_RGBA8888 True # rest
     \<and> img_format (view_image (imageView s')) = Format_RGBA8888"
proof -
  have d: "deref (heap loaded_A) (view_file (imageView loaded_A)) = Inr (doc_A\<lparr>StartFrame := 1\<rparr>)"
    by (simp add: loaded_A_heap loaded_A_view deref_def heap_at_def)
  have k: "view_frame (imageView loaded_A) \<noteq> currentFrame (imageView loaded_A)"
    by (simp add: loaded_A_view)
  have a: "0 < uiAlphaBitsPerPixel test_codec (Format (doc_A\<lparr>StartFrame := 1\<rparr>))"
    by (simp add: test_codec_def doc_A_def)
  have f: "Format (doc_A\<lparr>StartFrame := 1\<rparr>) = IMAGE_FORMAT_OTHER 15"
    by (simp add: doc_A_def)
  have c: "emitted loaded_A (state_of (paintEvent test_codec loaded_A))
             = [codec_Convert (IMAGE_FORMAT_OTHER 15) IMAGE_FORMAT_RGBA8888 True,
                drawImage (0, 0) \<lparr>img_data = Some 0, img_width = 256, img_height = 256,
                  img_format = Format_RGBA8888\<rparr>]"
    by code_simp
  from decode_target_format [OF d, of test_codec] k obtain s' target ok rest where
    r: "paintEvent test_codec loaded_A = Inr s'"
       "emitted loaded_A s' = codec_Convert (Format (doc_A\<lparr>StartFrame := 1\<rparr>)) target ok # rest"
       "target = IMAGE_FORMAT_RGBA8888 \<longleftrightarrow> 0 < uiAlphaBitsPerPixel test_codec (Format (doc_A\<lparr>StartFrame := 1\<rparr>))"
       "ok \<longrightarrow> img_format (view_image (imageView s')) =
          (if 0 < uiAlphaBitsPerPixel test_codec (Format (doc_A\<lparr>StartFrame := 1\<rparr>))
           then Format_RGBA8888 else Format_RGB888)"
    by blast
  from c r(1) r(2) have "ok" by (simp add: state_of_def)
  with r a f show ?thesis by auto
qed

section \<open>The settings widget while it synchronizes\<close>

lemma quiet_refl: "quiet a s s"
  by (simp add: quiet_def)

lemma quiet_trans: "quiet a s s' \<Longrightarrow> quiet a s' s'' \<Longrightarrow> quiet a s s''"
  unfolding quiet_def by (elim conjE, intro conjI) (simp_all, metis)

lemma quiet_live:
  "quiet a s s' \<Longrightarrow> heap_at (heap s) b = Some f \<Longrightarrow>
     \<exists>f'. heap_at (heap s') b = Some f' \<and> geometry f' = geometry f"
proof -
  assume q: "quiet a s s'" and h: "heap_at (heap s) b = Some f"
  from q have "map_option geometry (heap_at (heap s') b) = map_option geometry (heap_at (heap s) b)"
    by (simp add: quiet_def)
  with h show ?thesis by (cases "heap_at (heap s') b") simp_all
qed

lemma quiet_checks_ok: "quiet a s s' \<Longrightarrow> checks_ok tbl s \<Longrightarrow> checks_ok tbl s'"
  by (simp add: quiet_def checks_ok_def)

lemma geometry_fields:
  assumes "geometry f' = geometry f"
  shows "FrameCount f' = FrameCount f" "FaceCount f' = FaceCount f" "MipmapCount f' = MipmapCount f"
    "Width f' = Width f" "Height f' = Height f" "Depth f' = Depth f" "Format f' = Format f"
proof -
  have "FrameCount (geometry f') = FrameCount (geometry f)" "FaceCount (geometry f') = FaceCount (geometry f)"
    "MipmapCount (geometry f') = MipmapCount (geometry f)" "Width (geometry f') = Width (geometry f)"
    "Height (geometry f') = Height (geometry f)" "Depth (geometry f') = Depth (geometry f)"
    "Format (geometry f') = Format (geometry f)"
    using assms by simp_all
  then show "FrameCount f' = FrameCount f" "FaceCount f' = FaceCount f" "MipmapCount f' = MipmapCount f"
    "Width f' = Width f" "Height f' = Height f" "Depth f' = Depth f" "Format f' = Format f"
    by (simp_all add: geometry_def)
qed

lemma geometry_SetStartFrame: "geometry (SetStartFrame n f) = geometry f"
  by (simp add: geometry_def SetStartFrame_def)

lemma geometry_SetFlag: "geometry (SetFlag fl on f) = geometry f"
  by (simp add: geometry_def SetFlag_def)

lemma get_box_update:
  "get_box b' (w\<lparr>ctl_frame := x\<rparr>) = (if b' = FrameBox then x else get_box b' w)"
  "get_box b' (w\<lparr>ctl_mip := x\<rparr>) = (if b' = MipBox then x else get_box b' w)"
  "get_box b' (w\<lparr>ctl_face := x\<rparr>) = (if b' = FaceBox then x else get_box b' w)"
  "get_box b' (w\<lparr>ctl_startFrame := x\<rparr>) = (if b' = StartFrameBox then x else get_box b' w)"
  by (cases b'; simp)+

lemma put_box_other:
  "flagChecks (put_box b x w) = flagChecks w" "settingFile (put_box b x w) = settingFile w"
  "ctl_file (put_box b x w) = ctl_file w"
  by (cases b; simp)+

text \<open>A call on a spin box while the guard is up.\<close>

lemma box_call_guarded:
  assumes "guarded a s"
  obtains s' where "box_call b g s = Inr s'" and "quiet a s s'" and "guarded a s'"
    and "\<And>b'. get_box b' (viewSettings s') =
           (if b' = b then g (get_box b (viewSettings s)) else get_box b' (viewSettings s))"
    and "synced s \<Longrightarrow> synced s'"
    and "heap_at (heap s') a =
           (if b = StartFrameBox
               \<and> spin_value (g (get_box b (viewSettings s))) \<noteq> spin_value (get_box b (viewSettings s))
            then map_option (SetStartFrame (word_of_int (spin_value (g (get_box b (viewSettings s))))))
                   (heap_at (heap s) a)
            else heap_at (heap s) a)"
proof -
  from assms obtain f where a: "ctl_file (viewSettings s) = Some a" "heap_at (heap s) a = Some f"
    "settingFile (viewSettings s)"
    by (auto simp: guarded_def)
  then have len: "a < length (heap s)" by (auto simp: heap_at_def split: if_splits)
  let ?new = "g (get_box b (viewSettings s))"
  let ?s1 = "viewSettings_update (put_box b ?new) s"
  show thesis
  proof (cases "spin_value ?new \<noteq> spin_value (get_box b (viewSettings s))")
    case False
    show thesis
    proof (rule that [of ?s1])
      show "box_call b g s = Inr ?s1" using False by (simp add: box_call_def Let_def)
      show "quiet a s ?s1" by (simp add: quiet_def put_box_other)
      show "guarded a ?s1" using a by (simp add: guarded_def put_box_other)
      show "synced s \<Longrightarrow> synced ?s1" using False by (cases b) (auto simp: synced_def)
    qed (use False a in \<open>simp_all add: get_box_update put_box_other\<close>, cases b, simp_all add: get_box_update)
  next
    case True
    show thesis
    proof (cases b)
      case FrameBox
      let ?s2 = "imageView_update (set_frame (spin_value ?new)) ?s1"
      show thesis
      proof (rule that [of ?s2])
        show "box_call b g s = Inr ?s2" using True FrameBox by (simp add: box_call_def Let_def)
        show "quiet a s ?s2" using FrameBox by (simp add: quiet_def set_frame_def unselect_def)
        show "guarded a ?s2" using a FrameBox by (simp add: guarded_def)
        show "synced s \<Longrightarrow> synced ?s2" using FrameBox by (simp add: synced_def set_frame_def)
      qed (use FrameBox a in \<open>simp_all add: get_box_update put_box_other\<close>)
    next
      case MipBox
      let ?s2 = "imageView_update (set_mip (spin_value ?new)) ?s1"
      show thesis
      proof (rule that [of ?s2])
        show "box_call b g s = Inr ?s2" using True MipBox by (simp add: box_call_def Let_def)
        show "quiet a s ?s2" using MipBox by (simp add: quiet_def set_mip_def unselect_def)
        show "guarded a ?s2" using a MipBox by (simp add: guarded_def)
        show "synced s \<Longrightarrow> synced ?s2" using MipBox by (simp add: synced_def set_mip_def)
      qed (use MipBox a in \<open>simp_all add: get_box_update put_box_other\<close>)
    next
      case FaceBox
      let ?s2 = "imageView_update (set_face (spin_value ?new)) ?s1"
      show thesis
      proof (rule that [of ?s2])
        show "box_call b g s = Inr ?s2" using True FaceBox by (simp add: box_call_def Let_def)
        show "quiet a s ?s2" using FaceBox by (simp add: quiet_def set_face_def unselect_def)
        show "guarded a ?s2" using a FaceBox by (simp add: guarded_def)
        show "synced s \<Longrightarrow> synced ?s2" using FaceBox by (simp add: synced_def set_face_def)
      qed (use FaceBox a in \<open>simp_all add: get_box_update put_box_other\<close>)
    next
      case StartFrameBox
      let ?s2 = "?s1\<lparr>heap := (heap s)[a := Some (SetStartFrame (word_of_int (spin_value ?new)) f)]\<rparr>"
      show thesis
      proof (rule that [of ?s2])
        show "box_call b g s = Inr ?s2" using True StartFrameBox a
          by (simp add: box_call_def Let_def deref_def and_then_def)
        show "quiet a s ?s2" using StartFrameBox a len
          by (auto simp: quiet_def heap_at_update geometry_SetStartFrame)
        show "guarded a ?s2" using a len StartFrameBox by (simp add: guarded_def heap_at_update)
        show "synced s \<Longrightarrow> synced ?s2" using StartFrameBox by (simp add: synced_def)
        show "heap_at (heap ?s2) a =
           (if b = StartFrameBox
               \<and> spin_value (g (get_box b (viewSettings s))) \<noteq> spin_value (get_box b (viewSettings s))
            then map_option (SetStartFrame (word_of_int (spin_value (g (get_box b (viewSettings s))))))
                   (heap_at (heap s) a)
            else heap_at (heap s) a)"
          using True StartFrameBox a len by (simp add: heap_at_update)
      qed (use StartFrameBox in \<open>simp_all add: get_box_update put_box_other\<close>)
    qed
  qed
qed

lemma box_setValue_guarded:
  assumes "guarded a s"
  obtains s' where "box_setValue b v s = Inr s'" and "quiet a s s'" and "guarded a s'"
    and "\<And>b'. get_box b' (viewSettings s') =
           (if b' = b then setValue v (get_box b (viewSettings s)) else get_box b' (viewSettings s))"
    and "synced s \<Longrightarrow> synced s'"
    and "heap_at (heap s') a =
           (if b = StartFrameBox
               \<and> spin_value (setValue v (get_box b (viewSettings s))) \<noteq> spin_value (get_box b (viewSettings s))
            then map_option (SetStartFrame (word_of_int (spin_value (setValue v (get_box b (viewSettings s))))))
                   (heap_at (heap s) a)
            else heap_at (heap s) a)"
  using box_call_guarded [OF assms, of b "setValue v"] unfolding box_setValue_def by metis

lemma box_setRange_guarded:
  assumes "guarded a s"
  obtains s' where "box_setRange b lo hi s = Inr s'" and "quiet a s s'" and "guarded a s'"
    and "\<And>b'. get_box b' (viewSettings s') =
           (if b' = b then setRange lo hi (get_box b (viewSettings s)) else get_box b' (viewSettings s))"
    and "synced s \<Longrightarrow> synced s'"
  using box_call_guarded [OF assms, of b "setRange lo hi"] unfolding box_setRange_def by metis

text \<open>Setting a check box while the guard is up.\<close>

lemma setChecked_guarded:
  assumes "guarded a s" and "flagChecks (viewSettings s) fl \<noteq> None"
  obtains s' where "setChecked fl on s = Inr s'" and "quiet a s s'" and "guarded a s'"
    and "\<And>b. get_box b (viewSettings s') = get_box b (viewSettings s)"
    and "imageView s' = imageView s"
proof -
  from assms obtain f c where a: "ctl_file (viewSettings s) = Some a" "heap_at (heap s) a = Some f"
    "settingFile (viewSettings s)" "flagChecks (viewSettings s) fl = Some c"
    by (auto simp: guarded_def)
  then have len: "a < length (heap s)" by (auto simp: heap_at_def split: if_splits)
  show thesis
  proof (cases "c = on")
    case True
    show thesis
    proof (rule that [of s])
      show "setChecked fl on s = Inr s" using True a by (simp add: setChecked_def)
    qed (simp_all add: quiet_refl assms)
  next
    case False
    let ?s1 = "viewSettings_update (\<lambda>w. w\<lparr>flagChecks := (flagChecks w)(fl \<mapsto> on)\<rparr>) s"
    let ?s2 = "?s1\<lparr>heap := (heap s)[a := Some (SetFlag fl ((if on then 2 else (0::int)) \<noteq> 0) f)]\<rparr>"
    show thesis
    proof (rule that [of ?s2])
      show "setChecked fl on s = Inr ?s2" using False a
        by (simp add: setChecked_def stateChanged_def deref_def and_then_def Let_def)
      show "quiet a s ?s2" using a len
        by (auto simp: quiet_def heap_at_update geometry_SetFlag)
      show "guarded a ?s2" using a len by (simp add: guarded_def heap_at_update)
      show "get_box b (viewSettings ?s2) = get_box b (viewSettings s)" for b
        by (cases b) simp_all
    qed simp
  qed
qed

lemma set_flags_guarded_ex:
  assumes "guarded a s" and "checks_ok tbl s"
  shows "\<exists>s'. set_flags flags tbl s = Inr s' \<and> quiet a s s' \<and> guarded a s'
           \<and> (\<forall>b. get_box b (viewSettings s') = get_box b (viewSettings s))
           \<and> imageView s' = imageView s"
  using assms
proof (induction tbl arbitrary: s)
  case Nil
  then show ?case by (simp add: quiet_refl)
next
  case (Cons t tbl)
  from Cons.prems have c: "flagChecks (viewSettings s) (flag t) \<noteq> None" and rest: "checks_ok tbl s"
    by (simp_all add: checks_ok_def)
  from setChecked_guarded [OF Cons.prems(1) c, of "flags AND flag t \<noteq> 0"] obtain s1 where
    s1: "setChecked (flag t) (flags AND flag t \<noteq> 0) s = Inr s1" "quiet a s s1" "guarded a s1"
        "\<And>b. get_box b (viewSettings s1) = get_box b (viewSettings s)"
        "imageView s1 = imageView s"
    by metis
  have c1: "checks_ok tbl s1" using quiet_checks_ok [OF s1(2) rest] .
  from Cons.IH [OF s1(3) c1] obtain s2 where
    s2: "set_flags flags tbl s1 = Inr s2" "quiet a s1 s2" "guarded a s2"
        "\<forall>b. get_box b (viewSettings s2) = get_box b (viewSettings s1)"
        "imageView s2 = imageView s1"
    by blast
  show ?case
  proof (intro exI conjI)
    show "set_flags flags (t # tbl) s = Inr s2" using s1(1) s2(1) by (simp add: and_then_Inr)
    show "quiet a s s2" using quiet_trans [OF s1(2) s2(2)] .
  qed (use s1 s2 in simp_all)
qed

text \<open>The whole of \<open>ImageSettingsWidget::set_vtf\<close> on a live file.\<close>

lemma set_vtf_result:
  assumes f: "heap_at (heap s0) a = Some f" and c: "checks_ok tbl s0"
  obtains s' where "ImageSettingsWidget_set_vtf tbl (Some a) s0 = Inr s'"
    and "quiet a s0 s'"
    and "\<not> settingFile (viewSettings s')" and "ctl_file (viewSettings s') = Some a"
    and "synced s0 \<Longrightarrow> synced s'"
    and "ctl_mip (viewSettings s') = setRange 0 (sint (MipmapCount f)) (setValue 0 (ctl_mip (viewSettings s0)))"
    and "ctl_face (viewSettings s') = setRange 1 (sint (FaceCount f)) (setValue 0 (ctl_face (viewSettings s0)))"
    and "ctl_startFrame (viewSettings s') =
           setRange 1 (sint (FrameCount f)) (setValue (sint (StartFrame f)) (ctl_startFrame (viewSettings s0)))"
    and "ctl_frame (viewSettings s') =
           setRange 1 (sint (FrameCount f))
             (setValue
                (if spin_value (setValue (sint (StartFrame f)) (ctl_startFrame (viewSettings s0)))
                      \<noteq> spin_value (ctl_startFrame (viewSettings s0))
                 then sint (word_of_int (spin_value (setValue (sint (StartFrame f)) (ctl_startFrame (viewSettings s0)))) :: vlUInt)
                 else sint (StartFrame f))
                (ctl_frame (viewSettings s0)))"
proof -
  define s where "s = viewSettings_update (\<lambda>w. w\<lparr>settingFile := True, ctl_file := Some a\<rparr>) s0"
  have g0: "guarded a s" using f by (simp add: s_def guarded_def)
  have q0: "quiet a s0 s" by (simp add: s_def quiet_def)
  have b0: "get_box b (viewSettings s) = get_box b (viewSettings s0)" for b
    by (cases b) (simp_all add: s_def)
  have y0: "synced s0 \<Longrightarrow> synced s" by (simp add: s_def synced_def)
  have h0: "heap_at (heap s) a = Some f" using f by (simp add: s_def)
  \<comment> \<open>startFrame_->setValue(file->GetStartFrame())\<close>
  from box_setValue_guarded [OF g0, of StartFrameBox "sint (StartFrame f)"] obtain s1 where
    s1: "box_setValue StartFrameBox (sint (StartFrame f)) s = Inr s1" "quiet a s s1" "guarded a s1"
        "\<And>b'. get_box b' (viewSettings s1) =
           (if b' = StartFrameBox then setValue (sint (StartFrame f)) (get_box StartFrameBox (viewSettings s))
            else get_box b' (viewSettings s))"
        "synced s \<Longrightarrow> synced s1"
        "heap_at (heap s1) a =
           (if StartFrameBox = StartFrameBox
               \<and> spin_value (setValue (sint (StartFrame f)) (get_box StartFrameBox (viewSettings s)))
                   \<noteq> spin_value (get_box StartFrameBox (viewSettings s))
            then map_option (SetStartFrame (word_of_int (spin_value (setValue (sint (StartFrame f)) (get_box StartFrameBox (viewSettings s))))))
                   (heap_at (heap s) a)
            else heap_at (heap s) a)"
    by metis
  define f1 where "f1 =
     (if spin_value (setValue (sint (StartFrame f)) (ctl_startFrame (viewSettings s0)))
           \<noteq> spin_value (ctl_startFrame (viewSettings s0))
      then SetStartFrame (word_of_int (spin_value (setValue (sint (StartFrame f)) (ctl_startFrame (viewSettings s0))))) f
      else f)"
  have h1: "heap_at (heap s1) a = Some f1"
    using s1(6) h0 b0 [of StartFrameBox] by (simp add: f1_def)
  \<comment> \<open>mip_->setValue(0)\<close>
  from box_setValue_guarded [OF s1(3), of MipBox 0] obtain s2 where
    s2: "box_setValue MipBox 0 s1 = Inr s2" "quiet a s1 s2" "guarded a s2"
        "\<And>b'. get_box b' (viewSettings s2) =
           (if b' = MipBox then setValue 0 (get_box MipBox (viewSettings s1)) else get_box b' (viewSettings s1))"
        "synced s1 \<Longrightarrow> synced s2"
        "heap_at (heap s2) a =
           (if MipBox = StartFrameBox
               \<and> spin_value (setValue 0 (get_box MipBox (viewSettings s1))) \<noteq> spin_value (get_box MipBox (viewSettings s1))
            then map_option (SetStartFrame (word_of_int (spin_value (setValue 0 (get_box MipBox (viewSettings s1))))))
                   (heap_at (heap s1) a)
            else heap_at (heap s1) a)"
    by metis
  have h2: "heap_at (heap s2) a = Some f1" using s2(6) h1 by simp
  \<comment> \<open>frame_->setValue(file->GetStartFrame())\<close>
  from box_setValue_guarded [OF s2(3), of FrameBox "sint (StartFrame f1)"] obtain s3 where
    s3: "box_setValue FrameBox (sint (StartFrame f1)) s2 = Inr s3" "quiet a s2 s3" "guarded a s3"
        "\<And>b'. get_box b' (viewSettings s3) =
           (if b' = FrameBox then setValue (sint (StartFrame f1)) (get_box FrameBox (viewSettings s2))
            else get_box b' (viewSettings s2))"
        "synced s2 \<Longrightarrow> synced s3"
    by metis
  \<comment> \<open>face_->setValue(0)\<close>
  from box_setValue_guarded [OF s3(3), of FaceBox 0] obtain s4 where
    s4: "box_setValue FaceBox 0 s3 = Inr s4" "quiet a s3 s4" "guarded a s4"
        "\<And>b'. get_box b' (viewSettings s4) =
           (if b' = FaceBox then setValue 0 (get_box FaceBox (viewSettings s3)) else get_box b' (viewSettings s3))"
        "synced s3 \<Longrightarrow> synced s4"
    by metis
  have q4: "quiet a s s4"
    using quiet_trans [OF quiet_trans [OF quiet_trans [OF s1(2) s2(2)] s3(2)] s4(2)] .
  from quiet_live [OF q4 h0] obtain f4 where f4: "heap_at (heap s4) a = Some f4" "geometry f4 = geometry f"
    by blast
  \<comment> \<open>mip_->setRange(0, file->GetMipmapCount())\<close>
  from box_setRange_guarded [OF s4(3), of MipBox 0 "sint (MipmapCount f)"] obtain s5 where
    s5: "box_setRange MipBox 0 (sint (MipmapCount f)) s4 = Inr s5" "quiet a s4 s5" "guarded a s5"
        "\<And>b'. get_box b' (viewSettings s5) =
           (if b' = MipBox then setRange 0 (sint (MipmapCount f)) (get_box MipBox (viewSettings s4))
            else get_box b' (viewSettings s4))"
        "synced s4 \<Longrightarrow> synced s5"
    by metis
  have q5: "quiet a s s5" using quiet_trans [OF q4 s5(2)] .
  from quiet_live [OF q5 h0] obtain f5 where f5: "heap_at (heap s5) a = Some f5" "geometry f5 = geometry f"
    by blast
  \<comment> \<open>frame_->setRange(1, file->GetFrameCount())\<close>
  from box_setRange_guarded [OF s5(3), of FrameBox 1 "sint (FrameCount f)"] obtain s6 where
    s6: "box_setRange FrameBox 1 (sint (FrameCount f)) s5 = Inr s6" "quiet a s5 s6" "guarded a s6"
        "\<And>b'. get_box b' (viewSettings s6) =
           (if b' = FrameBox then setRange 1 (sint (FrameCount f)) (get_box FrameBox (viewSettings s5))
            else get_box b' (viewSettings s5))"
        "synced s5 \<Longrightarrow> synced s6"
    by metis
  have q6: "quiet a s s6" using quiet_trans [OF q5 s6(2)] .
  from quiet_live [OF q6 h0] obtain f6 where f6: "heap_at (heap s6) a = Some f6" "geometry f6 = geometry f"
    by blast
  \<comment> \<open>face_->setRange(1, file->GetFaceCount())\<close>
  from box_setRange_guarded [OF s6(3), of FaceBox 1 "sint (FaceCount f)"] obtain s7 where
    s7: "box_setRange FaceBox 1 (sint (FaceCount f)) s6 = Inr s7" "quiet a s6 s7" "guarded a s7"
        "\<And>b'. get_box b' (viewSettings s7) =
           (if b' = FaceBox then setRange 1 (sint (FaceCount f)) (get_box FaceBox (viewSettings s6))
            else get_box b' (viewSettings s6))"
        "synced s6 \<Longrightarrow> synced s7"
    by metis
  have q7: "quiet a s s7" using quiet_trans [OF q6 s7(2)] .
  from quiet_live [OF q7 h0] obtain f7 where f7: "heap_at (heap s7) a = Some f7" "geometry f7 = geometry f"
    by blast
  \<comment> \<open>startFrame_->setRange(1, file->GetFrameCount())\<close>
  from box_setRange_guarded [OF s7(3), of StartFrameBox 1 "sint (FrameCount f)"] obtain s8 where
    s8: "box_setRange StartFrameBox 1 (sint (FrameCount f)) s7 = Inr s8" "quiet a s7 s8" "guarded a s8"
        "\<And>b'. get_box b' (viewSettings s8) =
           (if b' = StartFrameBox then setRange 1 (sint (FrameCount f)) (get_box StartFrameBox (viewSettings s7))
            else get_box b' (viewSettings s7))"
        "synced s7 \<Longrightarrow> synced s8"
    by metis
  have q8: "quiet a s s8" using quiet_trans [OF q7 s8(2)] .
  from quiet_live [OF q8 h0] obtain f8 where f8: "heap_at (heap s8) a = Some f8" "geometry f8 = geometry f"
    by blast
  \<comment> \<open>the flags\<close>
  have c8: "checks_ok tbl s8" using quiet_checks_ok [OF quiet_trans [OF q0 q8] c] .
  from set_flags_guarded_ex [OF s8(3) c8, of "Flags f8"] obtain s9 where
    s9: "set_flags (Flags f8) tbl s8 = Inr s9" "quiet a s8 s9" "guarded a s9"
        "\<forall>b. get_box b (viewSettings s9) = get_box b (viewSettings s8)"
        "imageView s9 = imageView s8"
    by blast
  have q9: "quiet a s0 s9" using quiet_trans [OF q0 quiet_trans [OF q8 s9(2)]] .
  define s' where "s' = viewSettings_update (\<lambda>w. w\<lparr>settingFile := False\<rparr>) s9"
  have run: "ImageSettingsWidget_set_vtf tbl (Some a) s0 = Inr s'"
    unfolding ImageSettingsWidget_set_vtf_def Let_def s_def [symmetric]
    by (simp add: and_then_Inr deref_live [OF h0] s1(1) s2(1) deref_live [OF h2] s3(1) s4(1)
        deref_live [OF f4(1)] deref_live [OF f5(1)] deref_live [OF f6(1)] deref_live [OF f7(1)]
        deref_live [OF f8(1)] geometry_fields [OF f4(2)] geometry_fields [OF f5(2)]
        geometry_fields [OF f6(2)] geometry_fields [OF f7(2)] s5(1) s6(1) s7(1) s8(1) s9(1) s'_def)
  have boxes9: "get_box b (viewSettings s') = get_box b (viewSettings s9)" for b
    by (cases b) (simp_all add: s'_def)
  have sf1: "sint (StartFrame f1) =
      (if spin_value (setValue (sint (StartFrame f)) (ctl_startFrame (viewSettings s0)))
            \<noteq> spin_value (ctl_startFrame (viewSettings s0))
       then sint (word_of_int (spin_value (setValue (sint (StartFrame f)) (ctl_startFrame (viewSettings s0)))) :: vlUInt)
       else sint (StartFrame f))"
    by (simp add: f1_def SetStartFrame_def)
  show thesis
  proof (rule that [of s'])
    show "ImageSettingsWidget_set_vtf tbl (Some a) s0 = Inr s'" by (rule run)
    show "quiet a s0 s'" using q9 by (simp add: quiet_def s'_def)
    show "\<not> settingFile (viewSettings s')" by (simp add: s'_def)
    show "ctl_file (viewSettings s') = Some a" using s9(3) by (simp add: s'_def guarded_def)
    show "synced s0 \<Longrightarrow> synced s'"
    proof -
      assume "synced s0"
      then have "synced s8" using y0 s1(5) s2(5) s3(5) s4(5) s5(5) s6(5) s7(5) s8(5) by blast
      then have "synced s9" using s9(4) s9(5) boxes9
        by (simp add: synced_def) (metis get_box.simps)
      then show "synced s'" by (simp add: synced_def s'_def)
    qed
    show "ctl_mip (viewSettings s') = setRange 0 (sint (MipmapCount f)) (setValue 0 (ctl_mip (viewSettings s0)))"
      using boxes9 [of MipBox] s9(4) s8(4) [of MipBox] s7(4) [of MipBox] s6(4) [of MipBox] s5(4) [of MipBox]
        s4(4) [of MipBox] s3(4) [of MipBox] s2(4) [of MipBox] s1(4) [of MipBox] b0 [of MipBox]
      by simp
    show "ctl_face (viewSettings s') = setRange 1 (sint (FaceCount f)) (setValue 0 (ctl_face (viewSettings s0)))"
      using boxes9 [of FaceBox] s9(4) s8(4) [of FaceBox] s7(4) [of FaceBox] s6(4) [of FaceBox] s5(4) [of FaceBox]
        s4(4) [of FaceBox] s3(4) [of FaceBox] s2(4) [of FaceBox] s1(4) [of FaceBox] b0 [of FaceBox]
      by simp
    show "ctl_startFrame (viewSettings s') =
           setRange 1 (sint (FrameCount f)) (setValue (sint (StartFrame f)) (ctl_startFrame (viewSettings s0)))"
      using boxes9 [of StartFrameBox] s9(4) s8(4) [of StartFrameBox] s7(4) [of StartFrameBox]
        s6(4) [of StartFrameBox] s5(4) [of StartFrameBox] s4(4) [of StartFrameBox] s3(4) [of StartFrameBox]
        s2(4) [of StartFrameBox] s1(4) [of StartFrameBox] b0 [of StartFrameBox]
      by simp
    show "ctl_frame (viewSettings s') =
           setRange 1 (sint (FrameCount f))
             (setValue
                (if spin_value (setValue (sint (StartFrame f)) (ctl_startFrame (viewSettings s0)))
                      \<noteq> spin_value (ctl_startFrame (viewSettings s0))
                 then sint (word_of_int (spin_value (setValue (sint (StartFrame f)) (ctl_startFrame (viewSettings s0)))) :: vlUInt)
                 else sint (StartFrame f))
                (ctl_frame (viewSettings s0)))"
      using boxes9 [of FrameBox] s9(4) s8(4) [of FrameBox] s7(4) [of FrameBox]
        s6(4) [of FrameBox] s5(4) [of FrameBox] s4(4) [of FrameBox] s3(4) [of FrameBox]
        s2(4) [of FrameBox] s1(4) [of FrameBox] b0 [of FrameBox] sf1
      by simp
  qed
qed

section \<open>The other three slots\<close>

lemma setText_if:
  "setText n t s =
     (if info_fields (infoWidget s) n = None then Inl InvalidIterator
      else Inr (infoWidget_update (\<lambda>w. w\<lparr>info_fields := (info_fields w)(n \<mapsto> t)\<rparr>) s))"
  by (cases "info_fields (infoWidget s) n") (simp_all add: setText_def)

lemma update_info_null: "update_info cd None s = Inl NullDereference"
  by (simp add: update_info_def deref_null and_then_Inl)

lemma setText_last:
  assumes "fields_ok s" and "n \<in> set (FILE_FIELDS @ INFO_FIELDS)"
  shows "\<exists>s'. setText n t s = Inr s' \<and> fields_ok s' \<and> s' = s\<lparr>infoWidget := infoWidget s'\<rparr>"
proof -
  from assms have "info_fields (infoWidget s) n \<noteq> None"
    by (simp add: fields_ok_def list_all_iff)
  moreover from assms(1)
  have "fields_ok (infoWidget_update (\<lambda>w. w\<lparr>info_fields := (info_fields w)(n \<mapsto> t)\<rparr>) s)"
    by (simp add: fields_ok_def list_all_iff)
  ultimately show ?thesis by (simp add: setText_if)
qed

lemma setText_step:
  assumes "fields_ok s" and "n \<in> set (FILE_FIELDS @ INFO_FIELDS)"
    and "\<And>s1. fields_ok s1 \<Longrightarrow> s1 = s\<lparr>infoWidget := infoWidget s1\<rparr> \<Longrightarrow>
           \<exists>s'. k s1 = Inr s' \<and> fields_ok s' \<and> s' = s1\<lparr>infoWidget := infoWidget s'\<rparr>"
  shows "\<exists>s'. and_then (setText n t s) k = Inr s' \<and> fields_ok s' \<and> s' = s\<lparr>infoWidget := infoWidget s'\<rparr>"
proof -
  from setText_last [OF assms(1,2), of t] obtain s1 where
    s1: "setText n t s = Inr s1" "fields_ok s1" "s1 = s\<lparr>infoWidget := infoWidget s1\<rparr>"
    by blast
  from assms(3) [OF s1(2,3)] obtain s' where
    s': "k s1 = Inr s'" "fields_ok s'" "s' = s1\<lparr>infoWidget := infoWidget s'\<rparr>"
    by blast
  from s1(3) s'(3) have "s' = s\<lparr>infoWidget := infoWidget s'\<rparr>"
    by (metis app.surjective app.update_convs(4))
  with s1(1) s'(1,2) show ?thesis by (simp add: and_then_Inr)
qed

lemma update_info_live:
  assumes "heap_at (heap s) a = Some f" and "fields_ok s"
  obtains s' where "update_info cd (Some a) s = Inr s'"
    and "s' = s\<lparr>infoWidget := infoWidget s'\<rparr>" and "fields_ok s'"
proof -
  obtain x y z where r: "Reflectivity f = (x, y, z)" by (cases "Reflectivity f")
  have "\<exists>s'. update_info cd (Some a) s = Inr s' \<and> fields_ok s' \<and> s' = s\<lparr>infoWidget := infoWidget s'\<rparr>"
    unfolding update_info_def deref_live [OF assms(1)] and_then_Inr r prod.case
    by (intro setText_step setText_last assms(2); simp add: FILE_FIELDS_def INFO_FIELDS_def)
  then show thesis using that by blast
qed

lemma ResourceWidget_set_vtf_null: "ResourceWidget_set_vtf cd None s = Inl NullDereference"
  by (simp add: ResourceWidget_set_vtf_def deref_null and_then_Inl)

lemma ResourceWidget_set_vtf_live:
  assumes "heap_at (heap s) a = Some f"
  obtains s' where "ResourceWidget_set_vtf cd (Some a) s = Inr s'"
    and "s' = s\<lparr>resList := resList s'\<rparr>"
  using assms by (simp add: ResourceWidget_set_vtf_def Let_def deref_live and_then_Inr)

lemma ImageViewWidget_set_vtf_null: "ImageViewWidget_set_vtf None s = Inl NullDereference"
  by (simp add: ImageViewWidget_set_vtf_def deref_null and_then_Inl)

lemma ImageViewWidget_set_vtf_live:
  assumes "heap_at (heap s) a = Some f"
  obtains s' where "ImageViewWidget_set_vtf (Some a) s = Inr s'"
    and "s' = s\<lparr>imageView := imageView s'\<rparr>"
    and "view_file (imageView s') = Some a"
    and "view_zoom (imageView s') = 1" and "view_pos (imageView s') = (0, 0)"
    and "currentFrame (imageView s') = - 1" and "currentFace (imageView s') = - 1"
    and "currentMip (imageView s') = - 1"
    and "view_frame (imageView s') = view_frame (imageView s)"
    and "view_face (imageView s') = view_face (imageView s)"
    and "view_mip (imageView s') = view_mip (imageView s)"
    and "imgBuf (imageView s') = imgBuf (imageView s)"
    and "view_image (imageView s') = view_image (imageView s)"
  using assms
  by (simp add: ImageViewWidget_set_vtf_def Let_def deref_live and_then_Inr resize_def)

lemma ImageSettingsWidget_set_vtf_null: "ImageSettingsWidget_set_vtf tbl None s = Inl NullDereference"
  by (simp add: ImageSettingsWidget_set_vtf_def Let_def deref_null and_then_Inl)

lemma emit_vtfFileChanged_null: "emit_vtfFileChanged cd tbl None s = Inl NullDereference"
  by (simp add: emit_vtfFileChanged_def update_info_null and_then_Inl)

text \<open>The signal for a live file: what the four slots leave.\<close>

lemma emit_vtfFileChanged_live:
  assumes f: "heap_at (heap s0) a = Some f" and fo: "fields_ok s0" and co: "checks_ok tbl s0"
  obtains s' where "emit_vtfFileChanged cd tbl (Some a) s0 = Inr s'"
    and "trace s' = trace s0 @ [vtfFileChanged (Some a)]"
    and "mainWindow s' = mainWindow s0" and "pixels s' = pixels s0"
    and "length (heap s') = length (heap s0)"
    and "\<And>b. map_option geometry (heap_at (heap s') b) = map_option geometry (heap_at (heap s0) b)"
    and "\<And>b. b \<noteq> a \<Longrightarrow> heap_at (heap s') b = heap_at (heap s0) b"
    and "fields_ok s'" and "checks_ok tbl s'"
    and "\<not> settingFile (viewSettings s')" and "ctl_file (viewSettings s') = Some a"
    and "view_file (imageView s') = Some a"
    and "view_zoom (imageView s') = 1" and "view_pos (imageView s') = (0, 0)"
    and "currentFrame (imageView s') = - 1 \<and> currentFace (imageView s') = - 1 \<and> currentMip (imageView s') = - 1"
    and "imgBuf (imageView s') = imgBuf (imageView s0) \<and> view_image (imageView s') = view_image (imageView s0)"
    and "synced s0 \<Longrightarrow> synced s'"
    and "ctl_mip (viewSettings s') = setRange 0 (sint (MipmapCount f)) (setValue 0 (ctl_mip (viewSettings s0)))"
    and "ctl_face (viewSettings s') = setRange 1 (sint (FaceCount f)) (setValue 0 (ctl_face (viewSettings s0)))"
    and "ctl_startFrame (viewSettings s') =
           setRange 1 (sint (FrameCount f)) (setValue (sint (StartFrame f)) (ctl_startFrame (viewSettings s0)))"
    and "ctl_frame (viewSettings s') =
           setRange 1 (sint (FrameCount f))
             (setValue
                (if spin_value (setValue (sint (StartFrame f)) (ctl_startFrame (viewSettings s0)))
                      \<noteq> spin_value (ctl_startFrame (viewSettings s0))
                 then sint (word_of_int (spin_value (setValue (sint (StartFrame f)) (ctl_startFrame (viewSettings s0)))) :: vlUInt)
                 else sint (StartFrame f))
                (ctl_frame (viewSettings s0)))"
proof -
  define e where "e = emit (vtfFileChanged (Some a)) s0"
  have e: "heap_at (heap e) a = Some f" "fields_ok e"
    using f fo by (simp_all add: e_def emit_def fields_ok_def)
  from update_info_live [OF e, of cd] obtain s1 where
    s1: "update_info cd (Some a) e = Inr s1" "s1 = e\<lparr>infoWidget := infoWidget s1\<rparr>" "fields_ok s1"
    by blast
  have h1: "heap_at (heap s1) a = Some f" using e(1) s1(2) by (metis app.select_convs(1) app.surjective app.update_convs(4))
  from ResourceWidget_set_vtf_live [OF h1, of cd] obtain s2 where
    s2: "ResourceWidget_set_vtf cd (Some a) s1 = Inr s2" "s2 = s1\<lparr>resList := resList s2\<rparr>"
    by blast
  have h2: "heap_at (heap s2) a = Some f" using h1 s2(2) by (metis app.select_convs(1) app.surjective app.update_convs(5))
  from ImageViewWidget_set_vtf_live [OF h2] obtain s3 where
    s3: "ImageViewWidget_set_vtf (Some a) s2 = Inr s3" "s3 = s2\<lparr>imageView := imageView s3\<rparr>"
        "view_file (imageView s3) = Some a"
        "view_zoom (imageView s3) = 1" "view_pos (imageView s3) = (0, 0)"
        "currentFrame (imageView s3) = - 1" "currentFace (imageView s3) = - 1"
        "currentMip (imageView s3) = - 1"
        "view_frame (imageView s3) = view_frame (imageView s2)"
        "view_face (imageView s3) = view_face (imageView s2)"
        "view_mip (imageView s3) = view_mip (imageView s2)"
        "imgBuf (imageView s3) = imgBuf (imageView s2)"
        "view_image (imageView s3) = view_image (imageView s2)"
    by blast
  have eq3: "s3 = e\<lparr>infoWidget := infoWidget s1, resList := resList s2, imageView := imageView s3\<rparr>"
    using s1(2) s2(2) s3(2) by (metis app.update_convs(4) app.update_convs(5))
  have p3: "heap s3 = heap s0" "trace s3 = trace s0 @ [vtfFileChanged (Some a)]"
    "mainWindow s3 = mainWindow s0" "pixels s3 = pixels s0" "viewSettings s3 = viewSettings s0"
    "infoWidget s3 = infoWidget s1"
    by (subst eq3, simp add: e_def emit_def)+
  have v2: "imageView s2 = imageView s0"
    using s1(2) s2(2) by (metis app.select_convs(6) app.surjective app.update_convs(4) app.update_convs(5) e_def emit_def app.update_convs(8))
  have h3: "heap_at (heap s3) a = Some f" using f p3(1) by simp
  have c3: "checks_ok tbl s3" using co p3(5) by (simp add: checks_ok_def)
  from set_vtf_result [OF h3 c3] obtain s' where
    s': "ImageSettingsWidget_set_vtf tbl (Some a) s3 = Inr s'"
        "quiet a s3 s'"
        "\<not> settingFile (viewSettings s')" "ctl_file (viewSettings s') = Some a"
        "synced s3 \<Longrightarrow> synced s'"
        "ctl_mip (viewSettings s') = setRange 0 (sint (MipmapCount f)) (setValue 0 (ctl_mip (viewSettings s3)))"
        "ctl_face (viewSettings s') = setRange 1 (sint (FaceCount f)) (setValue 0 (ctl_face (viewSettings s3)))"
        "ctl_startFrame (viewSettings s') =
           setRange 1 (sint (FrameCount f)) (setValue (sint (StartFrame f)) (ctl_startFrame (viewSettings s3)))"
        "ctl_frame (viewSettings s') =
           setRange 1 (sint (FrameCount f))
             (setValue
                (if spin_value (setValue (sint (StartFrame f)) (ctl_startFrame (viewSettings s3)))
                      \<noteq> spin_value (ctl_startFrame (viewSettings s3))
                 then sint (word_of_int (spin_value (setValue (sint (StartFrame f)) (ctl_startFrame (viewSettings s3)))) :: vlUInt)
                 else sint (StartFrame f))
                (ctl_frame (viewSettings s3)))"
    by blast
  have u: "unselect (imageView s') = unselect (imageView s3)" using s'(2) by (simp add: quiet_def)
  have sel3: "view_zoom (unselect v) = view_zoom v" "view_pos (unselect v) = view_pos v"
    "view_file (unselect v) = view_file v" "currentFrame (unselect v) = currentFrame v"
    "currentFace (unselect v) = currentFace v" "currentMip (unselect v) = currentMip v"
    "imgBuf (unselect v) = imgBuf v" "view_image (unselect v) = view_image v" for v
    by (simp_all add: unselect_def)
  have keep: "view_zoom (imageView s') = view_zoom (imageView s3)"
    "view_pos (imageView s') = view_pos (imageView s3)"
    "view_file (imageView s') = view_file (imageView s3)"
    "currentFrame (imageView s') = currentFrame (imageView s3)"
    "currentFace (imageView s') = currentFace (imageView s3)"
    "currentMip (imageView s') = currentMip (imageView s3)"
    "imgBuf (imageView s') = imgBuf (imageView s3)"
    "view_image (imageView s') = view_image (imageView s3)"
    using arg_cong [OF u, of view_zoom] arg_cong [OF u, of view_pos] arg_cong [OF u, of view_file]
      arg_cong [OF u, of currentFrame] arg_cong [OF u, of currentFace] arg_cong [OF u, of currentMip]
      arg_cong [OF u, of imgBuf] arg_cong [OF u, of view_image]
    by (simp_all add: sel3)
  show thesis
  proof (rule that [of s'])
    show "emit_vtfFileChanged cd tbl (Some a) s0 = Inr s'"
      using s1(1) s2(1) s3(1) s'(1)
      by (simp add: emit_vtfFileChanged_def e_def [symmetric] and_then_Inr)
    show "trace s' = trace s0 @ [vtfFileChanged (Some a)]" using s'(2) p3 by (simp add: quiet_def)
    show "mainWindow s' = mainWindow s0" using s'(2) p3 by (simp add: quiet_def)
    show "pixels s' = pixels s0" using s'(2) p3 by (simp add: quiet_def)
    show "length (heap s') = length (heap s0)" using s'(2) p3 by (simp add: quiet_def)
    show "map_option geometry (heap_at (heap s') b) = map_option geometry (heap_at (heap s0) b)" for b
      using s'(2) p3 by (simp add: quiet_def)
    show "b \<noteq> a \<Longrightarrow> heap_at (heap s') b = heap_at (heap s0) b" for b
      using s'(2) p3 by (auto simp: quiet_def)
    show "fields_ok s'" using s'(2) p3 s1(3) by (simp add: quiet_def fields_ok_def)
    show "checks_ok tbl s'" using quiet_checks_ok [OF s'(2) c3] .
    show "synced s0 \<Longrightarrow> synced s'"
    proof -
      assume "synced s0"
      then have "synced s3" using s3(9,10,11) v2 p3(5) by (simp add: synced_def)
      then show "synced s'" by (rule s'(5))
    qed
    show "imgBuf (imageView s') = imgBuf (imageView s0) \<and> view_image (imageView s') = view_image (imageView s0)"
      using keep s3 v2 by simp
  qed (use s' keep s3 p3 in simp_all)
qed

text \<open>A load that the codec accepts.\<close>

lemma load_file_data_live:
  assumes l: "Load cd data = Some f" and fo: "fields_ok s0" and co: "checks_ok tbl s0"
  obtains s' where "load_file_data cd tbl data s0 = Inr (True, s')"
    and "mainWindow s' = (mainWindow s0)\<lparr>win_file := Some (length (heap s0)), win_path := []\<rparr>"
    and "trace s' = trace s0 @ [vtfFileChanged (Some (length (heap s0)))]"
    and "length (heap s') = Suc (length (heap s0))"
    and "map_option geometry (heap_at (heap s') (length (heap s0))) = Some (geometry f)"
    and "\<And>b. b \<noteq> length (heap s0) \<Longrightarrow> heap_at (heap s') b = heap_at (heap s0) b"
    and "fields_ok s'" and "checks_ok tbl s'"
    and "\<not> settingFile (viewSettings s')"
    and "view_file (imageView s') = Some (length (heap s0))"
    and "view_zoom (imageView s') = 1" and "view_pos (imageView s') = (0, 0)"
    and "synced s0 \<Longrightarrow> synced s'"
    and "ctl_mip (viewSettings s') = setRange 0 (sint (MipmapCount f)) (setValue 0 (ctl_mip (viewSettings s0)))"
    and "ctl_face (viewSettings s') = setRange 1 (sint (FaceCount f)) (setValue 0 (ctl_face (viewSettings s0)))"
    and "ctl_startFrame (viewSettings s') =
           setRange 1 (sint (FrameCount f)) (setValue (sint (StartFrame f)) (ctl_startFrame (viewSettings s0)))"
    and "ctl_frame (viewSettings s') =
           setRange 1 (sint (FrameCount f))
             (setValue
                (if spin_value (setValue (sint (StartFrame f)) (ctl_startFrame (viewSettings s0)))
                      \<noteq> spin_value (ctl_startFrame (viewSettings s0))
                 then sint (word_of_int (spin_value (setValue (sint (StartFrame f)) (ctl_startFrame (viewSettings s0)))) :: vlUInt)
                 else sint (StartFrame f))
                (ctl_frame (viewSettings s0)))"
proof -
  define a where "a = length (heap s0)"
  define s where "s = (mainWindow_update (\<lambda>w. w\<lparr>win_file := Some a\<rparr>) s0)\<lparr>heap := heap s0 @ [Some f]\<rparr>"
  have h: "heap_at (heap s) a = Some f" by (simp add: s_def a_def heap_at_append)
  have o: "fields_ok s" "checks_ok tbl s" using fo co by (simp_all add: s_def fields_ok_def checks_ok_def)
  have vs: "viewSettings s = viewSettings s0" "imageView s = imageView s0" by (simp_all add: s_def)
  show thesis
  proof (rule emit_vtfFileChanged_live [OF h o, of cd])
    fix s1
    assume s1: "emit_vtfFileChanged cd tbl (Some a) s = Inr s1"
        "trace s1 = trace s @ [vtfFileChanged (Some a)]"
        "mainWindow s1 = mainWindow s" "pixels s1 = pixels s"
        "length (heap s1) = length (heap s)"
        "\<And>b. map_option geometry (heap_at (heap s1) b) = map_option geometry (heap_at (heap s) b)"
        "\<And>b. b \<noteq> a \<Longrightarrow> heap_at (heap s1) b = heap_at (heap s) b"
        "fields_ok s1" "checks_ok tbl s1"
        "\<not> settingFile (viewSettings s1)" "ctl_file (viewSettings s1) = Some a"
        "view_file (imageView s1) = Some a"
        "view_zoom (imageView s1) = 1" "view_pos (imageView s1) = (0, 0)"
        "synced s \<Longrightarrow> synced s1"
        "ctl_mip (viewSettings s1) = setRange 0 (sint (MipmapCount f)) (setValue 0 (ctl_mip (viewSettings s)))"
        "ctl_face (viewSettings s1) = setRange 1 (sint (FaceCount f)) (setValue 0 (ctl_face (viewSettings s)))"
        "ctl_startFrame (viewSettings s1) =
           setRange 1 (sint (FrameCount f)) (setValue (sint (StartFrame f)) (ctl_startFrame (viewSettings s)))"
        "ctl_frame (viewSettings s1) =
           setRange 1 (sint (FrameCount f))
             (setValue
                (if spin_value (setValue (sint (StartFrame f)) (ctl_startFrame (viewSettings s)))
                      \<noteq> spin_value (ctl_startFrame (viewSettings s))
                 then sint (word_of_int (spin_value (setValue (sint (StartFrame f)) (ctl_startFrame (viewSettings s)))) :: vlUInt)
                 else sint (StartFrame f))
                (ctl_frame (viewSettings s)))"
    define s' where "s' = mainWindow_update (\<lambda>w. w\<lparr>win_file := Some a, win_path := []\<rparr>) s1"
    show thesis
    proof (rule that [of s'])
      show "load_file_data cd tbl data s0 = Inr (True, s')"
        using l s1(1)
        by (simp add: load_file_data_def Let_def load_file_ptr_def and_then_Inr s_def a_def s'_def)
      show "mainWindow s' = (mainWindow s0)\<lparr>win_file := Some (length (heap s0)), win_path := []\<rparr>"
        using s1(3) by (simp add: s'_def s_def a_def)
      show "trace s' = trace s0 @ [vtfFileChanged (Some (length (heap s0)))]"
        using s1(2) by (simp add: s'_def s_def a_def)
      show "length (heap s') = Suc (length (heap s0))" using s1(5) by (simp add: s'_def s_def)
      show "map_option geometry (heap_at (heap s') (length (heap s0))) = Some (geometry f)"
        using s1(6) [of a] h by (simp add: s'_def a_def)
      show "b \<noteq> length (heap s0) \<Longrightarrow> heap_at (heap s') b = heap_at (heap s0) b" for b
        using s1(7) [of b] by (simp add: s'_def a_def s_def heap_at_append)
      show "fields_ok s'" using s1(8) by (simp add: s'_def fields_ok_def)
      show "checks_ok tbl s'" using s1(9) by (simp add: s'_def checks_ok_def)
      show "synced s0 \<Longrightarrow> synced s'" using s1(15) vs by (simp add: s'_def synced_def)
      show "\<not> settingFile (viewSettings s')" using s1(10) by (simp add: s'_def)
      show "view_file (imageView s') = Some (length (heap s0))" using s1(12) by (simp add: s'_def a_def)
      show "view_zoom (imageView s') = 1" using s1(13) by (simp add: s'_def)
      show "view_pos (imageView s') = (0, 0)" using s1(14) by (simp add: s'_def)
      show "ctl_mip (viewSettings s') = setRange 0 (sint (MipmapCount f)) (setValue 0 (ctl_mip (viewSettings s0)))"
        using s1(16) vs by (simp add: s'_def)
      show "ctl_face (viewSettings s') = setRange 1 (sint (FaceCount f)) (setValue 0 (ctl_face (viewSettings s0)))"
        using s1(17) vs by (simp add: s'_def)
      show "ctl_startFrame (viewSettings s') =
           setRange 1 (sint (FrameCount f)) (setValue (sint (StartFrame f)) (ctl_startFrame (viewSettings s0)))"
        using s1(18) vs by (simp add: s'_def)
      show "ctl_frame (viewSettings s') =
           setRange 1 (sint (FrameCount f))
             (setValue
                (if spin_value (setValue (sint (StartFrame f)) (ctl_startFrame (viewSettings s0)))
                      \<noteq> spin_value (ctl_startFrame (viewSettings s0))
                 then sint (word_of_int (spin_value (setValue (sint (StartFrame f)) (ctl_startFrame (viewSettings s0)))) :: vlUInt)
                 else sint (StartFrame f))
                (ctl_frame (viewSettings s0)))"
        using s1(19) vs by (simp add: s'_def)
    qed
  qed
qed

section \<open>Spin box arithmetic\<close>

lemma reset_to_zero:
  "spin_minimum b \<le> 0 \<Longrightarrow> spin_value (setRange 0 hi (setValue 0 b)) = 0"
  by (simp add: setRange_def setValue_def bound_def Let_def)

lemma reset_to_one:
  "spin_minimum b \<le> 1 \<Longrightarrow> spin_value (setRange 1 hi (setValue 0 b)) = 1"
  by (simp add: setRange_def setValue_def bound_def Let_def)

lemma setValue_in_range: "in_range b v \<Longrightarrow> spin_value (setValue v b) = v"
  by (auto simp: setValue_def bound_def Let_def in_range_def)

lemma setRange_setValue_in_range:
  "in_range b v \<Longrightarrow>
     spin_value (setRange 1 hi (setValue v b)) =
       (if v < 1 then 1 else if max 1 hi < v then max 1 hi else v)"
  by (auto simp: setRange_def setValue_def bound_def Let_def in_range_def)

lemma setRange_limits:
  "spin_minimum (setRange lo hi b) = lo" "spin_maximum (setRange lo hi b) = max lo hi"
  by (simp_all add: setRange_def Let_def)

lemma setValue_above:
  "spin_minimum b \<le> spin_maximum b \<Longrightarrow> spin_maximum b \<le> v \<Longrightarrow> spin_value (setValue v b) = spin_maximum b"
  by (simp add: setValue_def bound_def Let_def)

lemma setRange_keeps:
  "1 \<le> spin_value b \<Longrightarrow> spin_value b \<le> hi \<Longrightarrow> spin_value (setRange 1 hi b) = spin_value b"
  by (simp add: setRange_def bound_def Let_def)

section \<open>The selection after a load\<close>

text \<open>
  Face, mip, zoom and pan are reset by every load that succeeds, from a state whose
  widgets are as \<open>setup_ui\<close> built them and whose canvas selection is the one the spin
  boxes show. The frame follows the start frame of the file when that lies in the ranges
  which the Frame and Start Frame boxes have when the load begins.
\<close>

lemma load_within_old_ranges:
  assumes "Load cd data = Some f"
    and "fields_ok s" and "checks_ok tbl s" and "synced s"
    and "spin_minimum (ctl_mip (viewSettings s)) \<le> 0"
    and "spin_minimum (ctl_face (viewSettings s)) \<le> 1"
  shows "\<exists>s'. load_file_data cd tbl data s = Inr (True, s')
           \<and> view_face (imageView s') = 1 \<and> view_mip (imageView s') = 0
           \<and> view_zoom (imageView s') = 1 \<and> view_pos (imageView s') = (0, 0)
           \<and> synced s' \<and> fields_ok s' \<and> checks_ok tbl s'
           \<and> spin_minimum (ctl_mip (viewSettings s')) \<le> 0
           \<and> spin_minimum (ctl_face (viewSettings s')) \<le> 1
           \<and> (in_range (ctl_frame (viewSettings s)) (sint (StartFrame f))
                \<and> in_range (ctl_startFrame (viewSettings s)) (sint (StartFrame f))
              \<longrightarrow> view_frame (imageView s') =
                    (if sint (StartFrame f) < 1 then 1
                     else if max 1 (sint (FrameCount f)) < sint (StartFrame f) then max 1 (sint (FrameCount f))
                     else sint (StartFrame f))
                  \<and> spin_value (ctl_startFrame (viewSettings s')) = view_frame (imageView s'))"
proof (rule load_file_data_live [OF assms(1,2,3)])
  fix s'
  assume s': "load_file_data cd tbl data s = Inr (True, s')"
        "view_zoom (imageView s') = 1" "view_pos (imageView s') = (0, 0)"
        "synced s \<Longrightarrow> synced s'"
        "ctl_mip (viewSettings s') = setRange 0 (sint (MipmapCount f)) (setValue 0 (ctl_mip (viewSettings s)))"
        "ctl_face (viewSettings s') = setRange 1 (sint (FaceCount f)) (setValue 0 (ctl_face (viewSettings s)))"
        "ctl_startFrame (viewSettings s') =
           setRange 1 (sint (FrameCount f)) (setValue (sint (StartFrame f)) (ctl_startFrame (viewSettings s)))"
        "ctl_frame (viewSettings s') =
           setRange 1 (sint (FrameCount f))
             (setValue
                (if spin_value (setValue (sint (StartFrame f)) (ctl_startFrame (viewSettings s)))
                      \<noteq> spin_value (ctl_startFrame (viewSettings s))
                 then sint (word_of_int (spin_value (setValue (sint (StartFrame f)) (ctl_startFrame (viewSettings s)))) :: vlUInt)
                 else sint (StartFrame f))
                (ctl_frame (viewSettings s)))"
    and ok: "fields_ok s'" "checks_ok tbl s'"
  have y: "synced s'" using s'(4) assms(4) by simp
  have m: "spin_value (ctl_mip (viewSettings s')) = 0" using s'(5) assms(5) by (simp add: reset_to_zero)
  have c: "spin_value (ctl_face (viewSettings s')) = 1" using s'(6) assms(6) by (simp add: reset_to_one)
  have fr: "view_frame (imageView s') =
              (if sint (StartFrame f) < 1 then 1
               else if max 1 (sint (FrameCount f)) < sint (StartFrame f) then max 1 (sint (FrameCount f))
               else sint (StartFrame f))
            \<and> spin_value (ctl_startFrame (viewSettings s')) = view_frame (imageView s')"
    if r: "in_range (ctl_frame (viewSettings s)) (sint (StartFrame f))"
          "in_range (ctl_startFrame (viewSettings s)) (sint (StartFrame f))"
  proof -
    have "spin_value (setValue (sint (StartFrame f)) (ctl_startFrame (viewSettings s))) = sint (StartFrame f)"
      using r(2) by (rule setValue_in_range)
    then have "ctl_frame (viewSettings s') =
        setRange 1 (sint (FrameCount f)) (setValue (sint (StartFrame f)) (ctl_frame (viewSettings s)))"
      using s'(8) by simp
    then show ?thesis
      using y s'(7) r by (simp add: synced_def setRange_setValue_in_range)
  qed
  have vf: "view_face (imageView s') = 1" "view_mip (imageView s') = 0"
    using y m c by (simp_all add: synced_def)
  have lo: "spin_minimum (ctl_mip (viewSettings s')) \<le> 0" "spin_minimum (ctl_face (viewSettings s')) \<le> 1"
    using s'(5,6) by (simp_all add: setRange_limits)
  show ?thesis
  proof (intro exI [of _ s'] conjI impI)
    show "load_file_data cd tbl data s = Inr (True, s')" by (rule s'(1))
  qed (use vf s'(2,3) y fr ok lo in blast)+
qed

text \<open>The first file opened after start-up, when the boxes still have the range 0 to 99.\<close>

lemma first_load_shows_start_frame:
  "\<exists>s'. load_file_data test_codec flags_table [2] app0 = Inr (True, s')
     \<and> view_frame (imageView s') = 3 \<and> view_face (imageView s') = 1 \<and> view_mip (imageView s') = 0
     \<and> view_zoom (imageView s') = 1 \<and> view_pos (imageView s') = (0, 0)"
proof -
  have l: "Load test_codec [2] = Some doc_B" by (simp add: test_codec_def)
  have d: "sint (StartFrame doc_B) = 3" "sint (FrameCount doc_B) = 5"
    by (simp_all add: doc_B_def doc_A_def)
  from load_within_old_ranges [OF l app0_ok(1,2,3,4,5)] app0_ok(6,7) d
  show ?thesis by auto
qed

text \<open>Already the first file opened shows frame 1 when its start frame is 0.\<close>

lemma first_load_start_frame_0:
  "Load test_codec [1] = Some doc_A \<and> StartFrame doc_A = 0 \<and> view_frame (imageView loaded_A) = 1"
  by code_simp

text \<open>What the second file opened leaves: the file still starts at frame 3, the canvas
  and both boxes are at frame 1.\<close>

lemma second_load_keeps_frame_1:
  "returned (load_file_data test_codec flags_table [2] loaded_A) = Some True
   \<and> map_option StartFrame (heap_at (heap loaded_B) 1) = Some 3
   \<and> view_frame (imageView loaded_B) = 1
   \<and> spin_value (ctl_frame (viewSettings loaded_B)) = 1
   \<and> spin_value (ctl_startFrame (viewSettings loaded_B)) = 1"
  by code_simp

text \<open>
  C3 (the selection after a load is (startFrame, 1, 0), zoom 1, pan (0, 0)) does not hold
  of the code, by the order of the statements of \<open>ImageSettingsWidget::set_vtf\<close>. It
  sets the Start Frame box and the Frame box to the start frame of the new file (lines
  511 to 514) and configures their ranges for the new file only afterwards (lines 517 to
  520), so the values are cut to the ranges the previous file left. For every load that
  succeeds while both boxes have a maximum \<open>m\<close> of at least 1 that is below the start
  frame of the new file, a start frame that the new file's own frame count allows: the
  load returns true; the canvas, the Frame box and the Start Frame box are at \<open>m\<close>, which
  is not the start frame of the file; face is 1, mip is 0, zoom is 1 and pan is (0, 0) as
  the claim says.
\<close>

theorem load_clamps_frame_to_old_range:
  assumes "Load cd data = Some f"
    and "fields_ok s" and "checks_ok tbl s" and "synced s"
    and "spin_minimum (ctl_mip (viewSettings s)) \<le> 0"
    and "spin_minimum (ctl_face (viewSettings s)) \<le> 1"
    and "spin_minimum (ctl_frame (viewSettings s)) \<le> m"
    and "spin_maximum (ctl_frame (viewSettings s)) = m"
    and "spin_minimum (ctl_startFrame (viewSettings s)) \<le> m"
    and "spin_maximum (ctl_startFrame (viewSettings s)) = m"
    and "1 \<le> m" and "m < sint (StartFrame f)" and "sint (StartFrame f) \<le> sint (FrameCount f)"
  shows "\<exists>s'. load_file_data cd tbl data s = Inr (True, s')
           \<and> view_frame (imageView s') = m
           \<and> spin_value (ctl_frame (viewSettings s')) = m
           \<and> spin_value (ctl_startFrame (viewSettings s')) = m
           \<and> view_frame (imageView s') \<noteq> sint (StartFrame f)
           \<and> view_face (imageView s') = 1 \<and> view_mip (imageView s') = 0
           \<and> view_zoom (imageView s') = 1 \<and> view_pos (imageView s') = (0, 0)"
proof (rule load_file_data_live [OF assms(1,2,3)])
  fix s'
  assume s': "load_file_data cd tbl data s = Inr (True, s')"
        "view_zoom (imageView s') = 1" "view_pos (imageView s') = (0, 0)"
        "synced s \<Longrightarrow> synced s'"
        "ctl_mip (viewSettings s') = setRange 0 (sint (MipmapCount f)) (setValue 0 (ctl_mip (viewSettings s)))"
        "ctl_face (viewSettings s') = setRange 1 (sint (FaceCount f)) (setValue 0 (ctl_face (viewSettings s)))"
        "ctl_startFrame (viewSettings s') =
           setRange 1 (sint (FrameCount f)) (setValue (sint (StartFrame f)) (ctl_startFrame (viewSettings s)))"
        "ctl_frame (viewSettings s') =
           setRange 1 (sint (FrameCount f))
             (setValue
                (if spin_value (setValue (sint (StartFrame f)) (ctl_startFrame (viewSettings s)))
                      \<noteq> spin_value (ctl_startFrame (viewSettings s))
                 then sint (word_of_int (spin_value (setValue (sint (StartFrame f)) (ctl_startFrame (viewSettings s)))) :: vlUInt)
                 else sint (StartFrame f))
                (ctl_frame (viewSettings s)))"
  have y: "synced s'" using s'(4) assms(4) by simp
  have mi: "spin_value (ctl_mip (viewSettings s')) = 0" using s'(5) assms(5) by (simp add: reset_to_zero)
  have fa: "spin_value (ctl_face (viewSettings s')) = 1" using s'(6) assms(6) by (simp add: reset_to_one)
  have top: "sint (StartFrame f) < 2 ^ 31" using sint_lt [of "StartFrame f"] by simp
  \<comment> \<open>startFrame_->setValue(file->GetStartFrame()) stops at the old maximum\<close>
  have sv: "spin_value (setValue (sint (StartFrame f)) (ctl_startFrame (viewSettings s))) = m"
    using assms(9,10,12) by (simp add: setValue_above)
  \<comment> \<open>if that moved the box, file_->SetStartFrame has stored the old maximum in the file\<close>
  have wb: "sint (word_of_int m :: vlUInt) = m"
    using assms(11,12) top by (simp add: sint_sbintrunc' signed_take_bit_int_eq_self)
  \<comment> \<open>frame_->setValue(file->GetStartFrame()) stops at the old maximum as well\<close>
  have fv: "spin_value (setValue
                (if spin_value (setValue (sint (StartFrame f)) (ctl_startFrame (viewSettings s)))
                      \<noteq> spin_value (ctl_startFrame (viewSettings s))
                 then sint (word_of_int (spin_value (setValue (sint (StartFrame f)) (ctl_startFrame (viewSettings s)))) :: vlUInt)
                 else sint (StartFrame f))
                (ctl_frame (viewSettings s))) = m"
    using assms(7,8,12) sv wb by (simp add: setValue_above)
  \<comment> \<open>the two setRange(1, file->GetFrameCount()) come after and leave the values\<close>
  have st: "spin_value (ctl_startFrame (viewSettings s')) = m"
    using s'(7) sv assms(11,12,13) by (simp add: setRange_keeps)
  have fr: "spin_value (ctl_frame (viewSettings s')) = m"
    using s'(8) fv assms(11,12,13) by (simp add: setRange_keeps)
  have vf: "view_frame (imageView s') = m" "view_face (imageView s') = 1" "view_mip (imageView s') = 0"
    using y mi fa fr by (simp_all add: synced_def)
  show ?thesis
  proof (intro exI [of _ s'] conjI)
    show "load_file_data cd tbl data s = Inr (True, s')" by (rule s'(1))
    show "view_frame (imageView s') \<noteq> sint (StartFrame f)" using vf(1) assms(12) by simp
  qed (use vf st fr s'(2,3) in simp_all)
qed

text \<open>With the one-frame file open, the five-frame file that starts at frame 3 is loaded:
  the canvas and the Start Frame box are at frame 1, and the file itself still says 3.\<close>

theorem load_clamps_frame_to_old_range_witness:
  "\<exists>s'. load_file_data test_codec flags_table [2] loaded_A = Inr (True, s')
     \<and> Load test_codec [2] = Some doc_B \<and> sint (StartFrame doc_B) = 3 \<and> sint (FrameCount doc_B) = 5
     \<and> map_option StartFrame (heap_at (heap s') 1) = Some 3
     \<and> view_frame (imageView s') = 1 \<and> spin_value (ctl_startFrame (viewSettings s')) = 1
     \<and> view_face (imageView s') = 1 \<and> view_mip (imageView s') = 0
     \<and> view_zoom (imageView s') = 1 \<and> view_pos (imageView s') = (0, 0)"
proof -
  have l: "Load test_codec [2] = Some doc_B" by (simp add: test_codec_def)
  have d: "sint (StartFrame doc_B) = 3" "sint (FrameCount doc_B) = 5"
    by (simp_all add: doc_B_def doc_A_def)
  have y: "synced loaded_A" by (simp add: synced_def loaded_A_view loaded_A_boxes)
  have r: "spin_minimum (ctl_mip (viewSettings loaded_A)) \<le> 0"
    "spin_minimum (ctl_face (viewSettings loaded_A)) \<le> 1"
    "spin_minimum (ctl_frame (viewSettings loaded_A)) \<le> 1"
    "spin_maximum (ctl_frame (viewSettings loaded_A)) = 1"
    "spin_minimum (ctl_startFrame (viewSettings loaded_A)) \<le> 1"
    "spin_maximum (ctl_startFrame (viewSettings loaded_A)) = 1"
    by (simp_all add: loaded_A_boxes)
  have n: "(1::int) \<le> 1" "1 < sint (StartFrame doc_B)" "sint (StartFrame doc_B) \<le> sint (FrameCount doc_B)"
    by (simp_all add: d)
  from load_clamps_frame_to_old_range [OF l loaded_A_ok y r n]
  obtain s' where s': "load_file_data test_codec flags_table [2] loaded_A = Inr (True, s')"
    "view_frame (imageView s') = 1" "spin_value (ctl_startFrame (viewSettings s')) = 1"
    "view_face (imageView s') = 1" "view_mip (imageView s') = 0"
    "view_zoom (imageView s') = 1" "view_pos (imageView s') = (0, 0)"
    by blast
  have "loaded_B = s'" by (simp add: loaded_B_def state_after_def s'(1))
  then have h: "map_option StartFrame (heap_at (heap s') 1) = Some 3"
    using second_load_keeps_frame_1 by simp
  show ?thesis
  proof (intro exI [of _ s'] conjI)
    show "load_file_data test_codec flags_table [2] loaded_A = Inr (True, s')" by (rule s'(1))
  qed (use l d h s' in simp_all)
qed

section \<open>The loading guard\<close>

text \<open>
  C7. Synchronizing the settings widget to a live file, with every flag of the table
  having its check box, returns and emits no \<open>fileModified\<close>: the main window, with
  its dirty bit and title, is as before, and the guard is down again afterwards. The
  whole signal \<open>vtfFileChanged\<close>, from its emission to the end of the last slot, adds
  only itself to the trace.
\<close>

theorem resync_emits_no_modified:
  assumes "heap_at (heap s) a = Some f" and "checks_ok tbl s"
  shows "(\<exists>s'. ImageSettingsWidget_set_vtf tbl (Some a) s = Inr s'
            \<and> fileModified \<notin> set (emitted s s')
            \<and> mainWindow s' = mainWindow s
            \<and> \<not> settingFile (viewSettings s'))
       \<and> (fields_ok s \<longrightarrow>
            (\<exists>s'. emit_vtfFileChanged cd tbl (Some a) s = Inr s'
               \<and> emitted s s' = [vtfFileChanged (Some a)]
               \<and> mainWindow s' = mainWindow s))"
proof (intro conjI impI)
  show "\<exists>s'. ImageSettingsWidget_set_vtf tbl (Some a) s = Inr s'
            \<and> fileModified \<notin> set (emitted s s')
            \<and> mainWindow s' = mainWindow s
            \<and> \<not> settingFile (viewSettings s')"
  proof (rule set_vtf_result [OF assms])
    fix s'
    assume "ImageSettingsWidget_set_vtf tbl (Some a) s = Inr s'" "quiet a s s'"
      "\<not> settingFile (viewSettings s')"
    then show ?thesis by (auto simp: quiet_def emitted_def)
  qed
next
  assume fo: "fields_ok s"
  show "\<exists>s'. emit_vtfFileChanged cd tbl (Some a) s = Inr s'
               \<and> emitted s s' = [vtfFileChanged (Some a)]
               \<and> mainWindow s' = mainWindow s"
  proof (rule emit_vtfFileChanged_live [OF assms(1) fo assms(2), of cd])
    fix s'
    assume "emit_vtfFileChanged cd tbl (Some a) s = Inr s'"
      "trace s' = trace s @ [vtfFileChanged (Some a)]" "mainWindow s' = mainWindow s"
    then show ?thesis by (auto simp: emitted_def)
  qed
qed

text \<open>The state in which the first document's signal reaches the settings widget:
  the object is made, nothing is synchronized yet.\<close>

theorem resync_emits_no_modified_witness:
  "\<exists>s'. ImageSettingsWidget_set_vtf flags_table (Some 0) (app0\<lparr>heap := [Some doc_A]\<rparr>) = Inr s'
     \<and> fileModified \<notin> set (emitted (app0\<lparr>heap := [Some doc_A]\<rparr>) s')
     \<and> mainWindow s' = mainWindow app0
     \<and> \<not> settingFile (viewSettings s')"
proof -
  have h: "heap_at (heap (app0\<lparr>heap := [Some doc_A]\<rparr>)) 0 = Some doc_A" by (simp add: heap_at_def)
  have c: "checks_ok flags_table (app0\<lparr>heap := [Some doc_A]\<rparr>)"
    using app0_ok(2) by (simp add: checks_ok_def)
  from resync_emits_no_modified [OF h c, of test_codec] show ?thesis by simp
qed

text \<open>The guard is what keeps the signal back: the same synchronization writes the start
  frame and three flags' check boxes, and the same check box, ticked by the user after
  \<open>set_vtf\<close> has returned, does emit.\<close>

lemma writes_under_the_guard:
  "StartFrame doc_A = 0 \<and> heap loaded_A = [Some (doc_A\<lparr>StartFrame := 1\<rparr>)]
   \<and> trace loaded_A = [vtfFileChanged (Some 0)]"
  by code_simp

lemma edit_outside_the_guard: "emitted loaded_A edited_A = [fileModified]"
  by code_simp

section \<open>Null handles\<close>

text \<open>
  C10. Each of the four slots of \<open>vtfFileChanged\<close> dereferences the handle it is given:
  on a null handle each of them crashes, and on a live handle, with the widgets as
  \<open>setup_ui\<close> built them, each of them returns. \<open>unload_file\<close> of a main window that
  holds a file emits the signal with a null handle, and so crashes in the first slot.
\<close>

theorem subscribers_need_live_handle:
  "update_info cd None s = Inl NullDereference
   \<and> ResourceWidget_set_vtf cd None s = Inl NullDereference
   \<and> ImageViewWidget_set_vtf None s = Inl NullDereference
   \<and> ImageSettingsWidget_set_vtf tbl None s = Inl NullDereference
   \<and> (win_file (mainWindow s) \<noteq> None \<longrightarrow> unload_file cd tbl s = Inl NullDereference)
   \<and> (heap_at (heap s) a = Some f \<and> fields_ok s \<and> checks_ok tbl s \<longrightarrow>
         (\<exists>s'. update_info cd (Some a) s = Inr s')
         \<and> (\<exists>s'. ResourceWidget_set_vtf cd (Some a) s = Inr s')
         \<and> (\<exists>s'. ImageViewWidget_set_vtf (Some a) s = Inr s')
         \<and> (\<exists>s'. ImageSettingsWidget_set_vtf tbl (Some a) s = Inr s'))"
proof (intro conjI impI)
  show "unload_file cd tbl s = Inl NullDereference" if "win_file (mainWindow s) \<noteq> None"
    using that by (auto simp: unload_file_def emit_vtfFileChanged_null and_then_Inl)
next
  assume live: "heap_at (heap s) a = Some f \<and> fields_ok s \<and> checks_ok tbl s"
  show "\<exists>s'. update_info cd (Some a) s = Inr s'"
    using update_info_live [of s a f cd] live by blast
next
  assume live: "heap_at (heap s) a = Some f \<and> fields_ok s \<and> checks_ok tbl s"
  show "\<exists>s'. ResourceWidget_set_vtf cd (Some a) s = Inr s'"
    using ResourceWidget_set_vtf_live [of s a f cd] live by blast
next
  assume live: "heap_at (heap s) a = Some f \<and> fields_ok s \<and> checks_ok tbl s"
  then have h: "heap_at (heap s) a = Some f" by simp
  show "\<exists>s'. ImageViewWidget_set_vtf (Some a) s = Inr s'"
    by (rule ImageViewWidget_set_vtf_live [OF h]) blast
next
  assume live: "heap_at (heap s) a = Some f \<and> fields_ok s \<and> checks_ok tbl s"
  then have h: "heap_at (heap s) a = Some f" and c: "checks_ok tbl s" by simp_all
  show "\<exists>s'. ImageSettingsWidget_set_vtf tbl (Some a) s = Inr s'"
    by (rule set_vtf_result [OF h c]) blast
qed (simp_all add: update_info_null ResourceWidget_set_vtf_null ImageViewWidget_set_vtf_null
      ImageSettingsWidget_set_vtf_null)

theorem subscribers_need_live_handle_witness:
  "update_info test_codec None loaded_A = Inl NullDereference
   \<and> ResourceWidget_set_vtf test_codec None loaded_A = Inl NullDereference
   \<and> ImageViewWidget_set_vtf None loaded_A = Inl NullDereference
   \<and> ImageSettingsWidget_set_vtf flags_table None loaded_A = Inl NullDereference
   \<and> unload_file test_codec flags_table loaded_A = Inl NullDereference
   \<and> (\<exists>s'. update_info test_codec (Some 0) loaded_A = Inr s')
   \<and> (\<exists>s'. ResourceWidget_set_vtf test_codec (Some 0) loaded_A = Inr s')
   \<and> (\<exists>s'. ImageViewWidget_set_vtf (Some 0) loaded_A = Inr s')
   \<and> (\<exists>s'. ImageSettingsWidget_set_vtf flags_table (Some 0) loaded_A = Inr s')"
proof -
  have h: "heap_at (heap loaded_A) 0 = Some (doc_A\<lparr>StartFrame := 1\<rparr>)"
    by (simp add: loaded_A_heap heap_at_def)
  have w: "win_file (mainWindow loaded_A) = Some 0" by (simp add: loaded_A_main)
  from subscribers_need_live_handle [of test_codec loaded_A flags_table 0 "doc_A\<lparr>StartFrame := 1\<rparr>"]
    h w loaded_A_ok
  show ?thesis by simp
qed

text \<open>
  C4, on the code. The claim asks that \<open>unload\<close> publishes the null document, releases
  the file and clears path and dirty bit. \<open>unload_file\<close> emits the signal with a null
  handle, which the first slot dereferences (C10), so the call does not get to the
  release; and the code after the signal deletes the file and clears handle and path,
  but has no assignment to the dirty bit: whatever state \<open>s1\<close> the slots would leave,
  the dirty bit is the same after the release.
\<close>

theorem unload_crashes_and_keeps_dirty:
  assumes "win_file (mainWindow s) = Some a"
  shows "unload_file cd tbl s = Inl NullDereference
       \<and> win_dirty (mainWindow (release a s1)) = win_dirty (mainWindow s1)
       \<and> win_file (mainWindow (release a s1)) = None
       \<and> win_path (mainWindow (release a s1)) = []
       \<and> heap_at (heap (release a s1)) a = None"
  using assms
  by (simp add: unload_file_def emit_vtfFileChanged_null and_then_Inl release_def heap_at_def)

theorem unload_crashes_and_keeps_dirty_witness:
  "win_file (mainWindow edited_A) = Some 0 \<and> win_dirty (mainWindow edited_A)
   \<and> unload_file test_codec flags_table edited_A = Inl NullDereference
   \<and> win_dirty (mainWindow (release 0 edited_A))"
proof -
  have w: "win_file (mainWindow edited_A) = Some 0" "win_dirty (mainWindow edited_A)"
    by (simp_all add: edited_A_main)
  from unload_crashes_and_keeps_dirty [OF w(1), of test_codec flags_table edited_A] w
  show ?thesis by simp
qed

end
